theory Spec2Isabelle
  imports Complex_Main "HOL-Library.Sublist" "HOL-Library.Multiset" "HOL-Library.Product_Lexorder"
begin

section \<open>Python values and exceptions\<close>

text \<open>
  Every exception the modelled functions can raise is a value of \<open>py_error\<close>; a function
  that can raise returns \<open>py_error + 'a\<close> with \<open>Inl\<close> for the exception.
  \<open>LibraryError\<close> stands for an exception raised inside a library or a module that is
  taken as a parameter (a decoder, the projector).
\<close>

datatype py_error =
    AttributeError
  | KeyError string
  | TypeError
  | ValueError
  | OverflowError
  | UnboundLocalError
  | FileNotFoundError
  | IsADirectoryError
  | UnsupportedFormatterException string
  | LibraryError string

text \<open>Sequencing of two computations that may raise: the first exception wins.\<close>

definition bind_err :: "py_error + 'a \<Rightarrow> ('a \<Rightarrow> py_error + 'b) \<Rightarrow> py_error + 'b" where
  "bind_err m f = (case m of Inl e \<Rightarrow> Inl e | Inr x \<Rightarrow> f x)"

section \<open>The formatter factory (scrape/export/brokerage_formatter.py)\<close>

text \<open>
  \<^verbatim>\<open>formatters = {'csv': CsvFormatter}\<close>: the dictionary of formatter classes, in
  insertion order. \<open>CsvFormatterClass\<close> is the class, \<open>CsvFormatter\<close> an instance of it
  (the constructor takes no argument and stores nothing).
\<close>

datatype formatter_class = CsvFormatterClass

datatype formatter = CsvFormatter

definition formatters :: "(string \<times> formatter_class) list" where
  "formatters = [(''csv'', CsvFormatterClass)]"

definition get_supported_formatters :: "string list" where
  "get_supported_formatters = map fst formatters"

text \<open>\<^verbatim>\<open>sep.join(xs)\<close> on a list of strings.\<close>

fun join :: "string \<Rightarrow> string list \<Rightarrow> string" where
  "join sep [] = []"
| "join sep [x] = x"
| "join sep (x # y # ys) = x @ sep @ join sep (y # ys)"

fun instantiate :: "formatter_class \<Rightarrow> formatter" where
  "instantiate CsvFormatterClass = CsvFormatter"

definition get_formatter :: "string \<Rightarrow> py_error + formatter" where
  "get_formatter formatter_name =
     (case map_of formatters formatter_name of
        None \<Rightarrow>
          (let supported_formatters = join '', '' get_supported_formatters
           in Inl (UnsupportedFormatterException (''Formatter must be one of '' @ supported_formatters)))
      | Some formatter_class \<Rightarrow> Inr (instantiate formatter_class))"

section \<open>Loading the dashboard specifications (cli/dashboard/commands.py)\<close>

text \<open>
  The four path constants come from \<^verbatim>\<open>funance.common.paths\<close>, which is not among the
  sources: they are parameters. The file system maps a path to a regular file with
  its text or to a directory; \<^verbatim>\<open>os.path.exists\<close> holds for both, \<^verbatim>\<open>open\<close> succeeds on
  a regular file only. The loader \<^verbatim>\<open>yaml.safe_load\<close> is a parameter that may raise.
\<close>

record paths =
  FORECAST_DIST_FILE :: string
  FORECAST_FILE :: string
  INVEST_DIST_FILE :: string
  INVEST_FILE :: string

datatype node = File string | Directory

type_synonym filesystem = "string \<rightharpoonup> node"

definition path_exists :: "filesystem \<Rightarrow> string \<Rightarrow> bool" where
  "path_exists fs p = (fs p \<noteq> None)"

definition open_read :: "filesystem \<Rightarrow> string \<Rightarrow> py_error + string" where
  "open_read fs p =
     (case fs p of
        None \<Rightarrow> Inl FileNotFoundError
      | Some Directory \<Rightarrow> Inl IsADirectoryError
      | Some (File content) \<Rightarrow> Inr content)"

text \<open>
  \<open>get_yaml\<close> returns the list of paths it tried to open together with its result. The two
  \<^verbatim>\<open>if\<close> statements run one after the other; the argument
  \<^verbatim>\<open>type_\<close> is written \<open>type'\<close>; the local variable \<^verbatim>\<open>spec_file\<close> is
  \<open>None\<close> while unbound, and reading it unbound raises \<^verbatim>\<open>UnboundLocalError\<close> before
  \<^verbatim>\<open>open\<close> is called.
\<close>

definition get_yaml ::
  "paths \<Rightarrow> (string \<Rightarrow> py_error + 'y) \<Rightarrow> filesystem \<Rightarrow> string \<Rightarrow> string list \<times> (py_error + 'y)" where
  "get_yaml P safe_load fs type' =
     (let spec_file0 = None;
          spec_file1 =
            (if type' = ''forecast''
             then Some (if path_exists fs (FORECAST_FILE P) then FORECAST_FILE P else FORECAST_DIST_FILE P)
             else spec_file0);
          spec_file2 =
            (if type' = ''invest''
             then Some (if path_exists fs (INVEST_FILE P) then INVEST_FILE P else INVEST_DIST_FILE P)
             else spec_file1)
      in case spec_file2 of
           None \<Rightarrow> ([], Inl UnboundLocalError)
         | Some spec_file \<Rightarrow> ([spec_file], bind_err (open_read fs spec_file) safe_load))"

section \<open>Decoded documents\<close>

text \<open>
  What \<^verbatim>\<open>json.load\<close> and \<^verbatim>\<open>yaml.safe_load\<close> return: \<^verbatim>\<open>None\<close>, booleans, numbers,
  strings, lists and dictionaries with string keys. A dictionary is an association list in
  insertion order (Python dictionaries keep it); a float is carried as its literal.
  The three operations below are the ones the sources apply to such values, each with the
  exception Python raises on a value of the wrong kind.
\<close>

datatype py_obj =
    PNone
  | PBool bool
  | PInt int
  | PFloat string
  | PStr string
  | PList "py_obj list"
  | PDict "(string \<times> py_obj) list"

text \<open>\<^verbatim>\<open>obj[key]\<close> with a string key.\<close>

fun getitem :: "py_obj \<Rightarrow> string \<Rightarrow> py_error + py_obj" where
  "getitem (PDict kvs) key = (case map_of kvs key of None \<Rightarrow> Inl (KeyError key) | Some v \<Rightarrow> Inr v)"
| "getitem obj key = Inl TypeError"

text \<open>\<^verbatim>\<open>obj.values()\<close>: only a dictionary has the method.\<close>

fun py_values :: "py_obj \<Rightarrow> py_error + py_obj list" where
  "py_values (PDict kvs) = Inr (map snd kvs)"
| "py_values obj = Inl AttributeError"

text \<open>
  \<^verbatim>\<open>for x in obj\<close>: a list yields its elements, a dictionary its keys, a string its
  characters; nothing else is iterable.
\<close>

fun py_iter :: "py_obj \<Rightarrow> py_error + py_obj list" where
  "py_iter (PList xs) = Inr xs"
| "py_iter (PDict kvs) = Inr (map (\<lambda>kv. PStr (fst kv)) kvs)"
| "py_iter (PStr s) = Inr (map (\<lambda>c. PStr [c]) s)"
| "py_iter obj = Inl TypeError"

section \<open>The content-addressed store (common/redis.py)\<close>

text \<open>
  \<^verbatim>\<open>isinstance(value, pd.DataFrame)\<close> splits the values into data frames and all others.
  The encoders and decoders are library functions (pandas, plotly, json, hashlib): they are
  parameters, each of which may raise. Byte strings are lists of characters. The Redis
  server is a map from keys to byte strings; its \<^verbatim>\<open>set\<close> overwrites, its \<^verbatim>\<open>get\<close> returns
  \<^verbatim>\<open>None\<close> for a missing key.
\<close>

datatype ('df, 'j) py_value = DataFrame 'df | Other 'j

record ('df, 'j, 'l) codecs =
  to_parquet_gzip :: "'df \<Rightarrow> py_error + string"
  read_parquet :: "string \<Rightarrow> py_error + 'df"
  plotly_json_dumps :: "'j \<Rightarrow> py_error + string"
  json_loads :: "string \<Rightarrow> py_error + 'l"
  sha512_hexdigest :: "string \<Rightarrow> string"

type_synonym redis = "string \<rightharpoonup> string"

text \<open>\<^verbatim>\<open>RedisStore._hash\<close>.\<close>

definition hash_hex :: "('df, 'j, 'l) codecs \<Rightarrow> string \<Rightarrow> string" where
  "hash_hex C serialized_obj = sha512_hexdigest C serialized_obj"

definition value_key :: "string \<Rightarrow> string" where
  "value_key hash_key = ''_dash_aio_components_value_'' @ hash_key"

definition type_key :: "string \<Rightarrow> string" where
  "type_key hash_key = ''_dash_aio_components_type_'' @ hash_key"

text \<open>\<^verbatim>\<open>RedisStore.save\<close>: the new store and the returned hash key, or the exception.\<close>

definition save ::
  "('df, 'j, 'l) codecs \<Rightarrow> redis \<Rightarrow> ('df, 'j) py_value \<Rightarrow> py_error + (redis \<times> string)" where
  "save C r val =
     bind_err
       (case val of
          DataFrame df \<Rightarrow>
            bind_err (to_parquet_gzip C df)
              (\<lambda>df_as_bytes. Inr (hash_hex C df_as_bytes, ''pd.DataFrame'', df_as_bytes))
        | Other v \<Rightarrow>
            bind_err (plotly_json_dumps C v)
              (\<lambda>serialized_value. Inr (hash_hex C serialized_value, ''json-serialized'', serialized_value)))
       (\<lambda>(hash_key, type', serialized_value).
          let r1 = r(value_key hash_key \<mapsto> serialized_value);
              r2 = r1(type_key hash_key \<mapsto> type')
          in Inr (r2, hash_key))"

text \<open>
  \<^verbatim>\<open>RedisStore.load\<close>. \<^verbatim>\<open>io.BytesIO(None)\<close> is the empty buffer; \<^verbatim>\<open>json.loads(None)\<close>
  raises \<^verbatim>\<open>TypeError\<close>. The handler of the \<^verbatim>\<open>try\<close> block formats the expression
  \<^verbatim>\<open>data_type - hash_key\<close>, a subtraction of a string from a byte string (or from
  \<^verbatim>\<open>None\<close>), which raises \<^verbatim>\<open>TypeError\<close> before the caught exception is raised again:
  every exception of the block leaves \<open>load\<close> as \<open>TypeError\<close>.
\<close>

definition load ::
  "('df, 'j, 'l) codecs \<Rightarrow> redis \<Rightarrow> string \<Rightarrow> py_error + ('df, 'l) py_value" where
  "load C r hash_key =
     (let data_type = r (type_key hash_key);
          serialized_value = r (value_key hash_key);
          attempt =
            (if data_type = Some ''pd.DataFrame''
             then bind_err (read_parquet C (case serialized_value of None \<Rightarrow> [] | Some b \<Rightarrow> b))
                    (\<lambda>df. Inr (DataFrame df))
             else case serialized_value of
                    None \<Rightarrow> Inl TypeError
                  | Some b \<Rightarrow> bind_err (json_loads C b) (\<lambda>v. Inr (Other v)))
      in case attempt of
           Inl e \<Rightarrow> Inl TypeError
         | Inr v \<Rightarrow> Inr v)"

text \<open>
  The serialized form of a value and its type tag, as \<open>save\<close> computes them in its two
  branches; used to state what \<open>save\<close> stores.
\<close>

definition serialized_form :: "('df, 'j, 'l) codecs \<Rightarrow> ('df, 'j) py_value \<Rightarrow> py_error + string" where
  "serialized_form C val =
     (case val of DataFrame df \<Rightarrow> to_parquet_gzip C df | Other v \<Rightarrow> plotly_json_dumps C v)"

definition type_tag :: "('df, 'j) py_value \<Rightarrow> string" where
  "type_tag val = (case val of DataFrame df \<Rightarrow> ''pd.DataFrame'' | Other v \<Rightarrow> ''json-serialized'')"

section \<open>The CSV export of cost-basis lots (scrape/export/brokerage_formatter.py)\<close>

text \<open>
  The CSV file is the list of the rows written to it, a row being the list of its cells in
  column order; how the \<^verbatim>\<open>csv\<close> module quotes and terminates a row is not modelled. The
  file is opened for writing before any source file is read and is closed by the
  \<^verbatim>\<open>with\<close> statement also when an exception passes through: the rows written so far
  stay. Every writing function therefore returns the rows together with its outcome.
\<close>

type_synonym csv = "py_obj list list"

definition PREFIX :: string where
  "PREFIX = ''brokerage''"

definition HEADERS :: "string list" where
  "HEADERS = [''account_name'', ''ticker'', ''date_acquired'', ''num_shares'', ''cost_per_share'',
              ''total_cost'', ''term'']"

text \<open>
  \<^verbatim>\<open>DictWriter.writerow\<close>: a key outside the field names raises \<^verbatim>\<open>ValueError\<close>; the
  cells are the dictionary's values in the order of the field names, a missing one being
  the empty string.
\<close>

definition writerow :: "(string \<times> py_obj) list \<Rightarrow> csv \<Rightarrow> csv \<times> (py_error + unit)" where
  "writerow rowdict rows =
     (if \<exists>k \<in> set (map fst rowdict). k \<notin> set HEADERS then (rows, Inl ValueError)
      else (rows @ [map (\<lambda>key. case map_of rowdict key of None \<Rightarrow> PStr [] | Some v \<Rightarrow> v) HEADERS],
            Inr ()))"

definition writeheader :: "csv \<Rightarrow> csv \<times> (py_error + unit)" where
  "writeheader rows = writerow (zip HEADERS (map PStr HEADERS)) rows"

text \<open>A \<^verbatim>\<open>for\<close> loop whose body writes rows: the first exception ends it.\<close>

fun for_each :: "('x \<Rightarrow> csv \<Rightarrow> csv \<times> (py_error + unit)) \<Rightarrow> 'x list \<Rightarrow> csv \<Rightarrow> csv \<times> (py_error + unit)" where
  "for_each body [] rows = (rows, Inr ())"
| "for_each body (x # xs) rows =
     (case body x rows of
        (rows', Inl e) \<Rightarrow> (rows', Inl e)
      | (rows', Inr u) \<Rightarrow> for_each body xs rows')"

text \<open>
  The body of the innermost loop: the keyword arguments of \<^verbatim>\<open>dict(...)\<close> are evaluated
  in the order they are written, then the row is written.
\<close>

definition write_lot :: "py_obj \<Rightarrow> py_obj \<Rightarrow> py_obj \<Rightarrow> csv \<Rightarrow> csv \<times> (py_error + unit)" where
  "write_lot a cb lot rows =
     (case
        bind_err (getitem cb ''ticker'') (\<lambda>ticker.
        bind_err (getitem lot ''date_acquired'') (\<lambda>date_acquired.
        bind_err (getitem lot ''num_shares'') (\<lambda>num_shares.
        bind_err (getitem lot ''cost_per_share'') (\<lambda>cost_per_share.
        bind_err (getitem lot ''total_cost'') (\<lambda>total_cost.
        bind_err (getitem a ''account_name'') (\<lambda>account_name.
        bind_err (getitem lot ''term'') (\<lambda>term.
          Inr [(''ticker'', ticker), (''date_acquired'', date_acquired), (''num_shares'', num_shares),
               (''cost_per_share'', cost_per_share), (''total_cost'', total_cost),
               (''account_name'', account_name), (''term'', term)])))))))
      of
        Inl e \<Rightarrow> (rows, Inl e)
      | Inr rowdict \<Rightarrow> writerow rowdict rows)"

definition write_cost_basis :: "py_obj \<Rightarrow> py_obj \<Rightarrow> csv \<Rightarrow> csv \<times> (py_error + unit)" where
  "write_cost_basis a cb rows =
     (case bind_err (getitem cb ''lots'') py_iter of
        Inl e \<Rightarrow> (rows, Inl e)
      | Inr lots \<Rightarrow> for_each (write_lot a cb) lots rows)"

definition write_account :: "py_obj \<Rightarrow> csv \<Rightarrow> csv \<times> (py_error + unit)" where
  "write_account a rows =
     (case bind_err (getitem a ''cost_basis'') py_values of
        Inl e \<Rightarrow> (rows, Inl e)
      | Inr cbs \<Rightarrow> for_each (write_cost_basis a) cbs rows)"

definition write_data :: "py_obj \<Rightarrow> csv \<Rightarrow> csv \<times> (py_error + unit)" where
  "write_data data rows =
     (case bind_err (getitem data ''accounts'') py_values of
        Inl e \<Rightarrow> (rows, Inl e)
      | Inr accounts \<Rightarrow> for_each write_account accounts rows)"

text \<open>
  The export directory is the list \<^verbatim>\<open>os.listdir\<close> returns, each name with what opening
  the file and \<^verbatim>\<open>json.load\<close> give for it (the decoded document, or the exception).
  \<open>format_csv\<close> is \<^verbatim>\<open>CsvFormatter.format\<close>: its value is the content of
  \<^verbatim>\<open>brokerage.csv\<close> afterwards and whether the call returned or raised.
\<close>

type_synonym export_dir = "(string \<times> (py_error + py_obj)) list"

definition process_file :: "string \<times> (py_error + py_obj) \<Rightarrow> csv \<Rightarrow> csv \<times> (py_error + unit)" where
  "process_file entry rows =
     (case snd entry of
        Inl e \<Rightarrow> (rows, Inl e)
      | Inr data \<Rightarrow> write_data data rows)"

definition exported_filenames :: "export_dir \<Rightarrow> export_dir" where
  "exported_filenames dir = filter (\<lambda>f. prefix PREFIX (fst f) \<and> suffix ''.json'' (fst f)) dir"

definition format_csv :: "export_dir \<Rightarrow> csv \<times> (py_error + unit)" where
  "format_csv dir =
     (let filenames = exported_filenames dir
      in case writeheader [] of
           (rows, Inl e) \<Rightarrow> (rows, Inl e)
         | (rows, Inr u) \<Rightarrow> for_each process_file filenames rows)"

text \<open>
  The rows the export is meant to hold for one decoded document: one row per lot, in
  document order, with the lot's own fields, the ticker of the enclosing cost-basis entry
  and the name of the enclosing account. \<open>field\<close> reads a key that is known to be there.
\<close>

definition field :: "py_obj \<Rightarrow> string \<Rightarrow> py_obj" where
  "field obj key = (case getitem obj key of Inr v \<Rightarrow> v | Inl e \<Rightarrow> PNone)"

definition lot_row :: "py_obj \<Rightarrow> py_obj \<Rightarrow> py_obj \<Rightarrow> py_obj list" where
  "lot_row a cb lot =
     [field a ''account_name'', field cb ''ticker'', field lot ''date_acquired'',
      field lot ''num_shares'', field lot ''cost_per_share'', field lot ''total_cost'',
      field lot ''term'']"

definition has_keys :: "py_obj \<Rightarrow> string list \<Rightarrow> bool" where
  "has_keys obj keys = list_all (\<lambda>k. case getitem obj k of Inr v \<Rightarrow> True | Inl e \<Rightarrow> False) keys"

text \<open>
  The document shape \<open>format_csv\<close> reads: \<open>accounts\<close> a dictionary of accounts, each with an
  \<open>account_name\<close> and a dictionary \<open>cost_basis\<close> of entries, each with a \<open>ticker\<close> and a
  list \<open>lots\<close> of lots that carry the five lot fields.
\<close>

definition lot_ok :: "py_obj \<Rightarrow> bool" where
  "lot_ok lot = has_keys lot [''date_acquired'', ''num_shares'', ''cost_per_share'', ''total_cost'', ''term'']"

definition entry_ok :: "py_obj \<Rightarrow> bool" where
  "entry_ok cb =
     (case getitem cb ''lots'' of
        Inr (PList lots) \<Rightarrow> has_keys cb [''ticker''] \<and> list_all lot_ok lots
      | _ \<Rightarrow> False)"

definition account_ok :: "py_obj \<Rightarrow> bool" where
  "account_ok a =
     (case getitem a ''cost_basis'' of
        Inr (PDict cbs) \<Rightarrow> has_keys a [''account_name''] \<and> list_all entry_ok (map snd cbs)
      | _ \<Rightarrow> False)"

definition keyed_document_ok :: "py_obj \<Rightarrow> bool" where
  "keyed_document_ok data =
     (case getitem data ''accounts'' of
        Inr (PDict accounts) \<Rightarrow> list_all account_ok (map snd accounts)
      | _ \<Rightarrow> False)"

definition lots_of :: "py_obj \<Rightarrow> py_obj list" where
  "lots_of cb = (case getitem cb ''lots'' of Inr (PList lots) \<Rightarrow> lots | _ \<Rightarrow> [])"

definition entries_of :: "py_obj \<Rightarrow> py_obj list" where
  "entries_of a = (case getitem a ''cost_basis'' of Inr (PDict cbs) \<Rightarrow> map snd cbs | _ \<Rightarrow> [])"

definition accounts_of :: "py_obj \<Rightarrow> py_obj list" where
  "accounts_of data = (case getitem data ''accounts'' of Inr (PDict accounts) \<Rightarrow> map snd accounts | _ \<Rightarrow> [])"

definition document_rows :: "py_obj \<Rightarrow> csv" where
  "document_rows data =
     concat (map (\<lambda>a. concat (map (\<lambda>cb. map (lot_row a cb) (lots_of cb)) (entries_of a)))
                 (accounts_of data))"

text \<open>
  The document that \<^verbatim>\<open>test_seralization\<close> asserts \<^verbatim>\<open>BrokerageWriter.dump_schema\<close> to
  produce: the accounts and the cost-basis entries are lists, and a lot has no \<open>term\<close>.
\<close>

definition writer_test_document :: py_obj where
  "writer_test_document =
     PDict [
       (''_meta'', PDict [(''brokerage'', PStr ''vanguard''), (''version'', PStr ''0.0.1'')]),
       (''accounts'', PList [
          PDict [(''account_name'', PStr ''Freedom''), (''cash'', PStr ''''),
                 (''cost_basis'', PList [
                    PDict [(''ticker'', PStr ''CRLBF''), (''company_name'', PStr ''Cresco Labs''),
                           (''total_shares'', PStr ''73''),
                           (''lots'', PList [
                              PDict [(''date_acquired'', PStr ''12/27/2018''),
                                     (''num_shares'', PStr ''16.0000''),
                                     (''cost_per_share'', PStr ''39.21''),
                                     (''total_cost'', PStr ''627.32'')]])]])]])]"

text \<open>
  The same document for a lot that carries a \<open>term\<close>: what the writer dumps when the
  scraped lot has all five fields.
\<close>

definition writer_document_with_term :: py_obj where
  "writer_document_with_term =
     PDict [
       (''_meta'', PDict [(''brokerage'', PStr ''vanguard''), (''version'', PStr ''0.0.1'')]),
       (''accounts'', PList [
          PDict [(''account_name'', PStr ''Freedom''), (''cash'', PStr ''''),
                 (''cost_basis'', PList [
                    PDict [(''ticker'', PStr ''CRLBF''), (''company_name'', PStr ''Cresco Labs''),
                           (''total_shares'', PStr ''73''),
                           (''lots'', PList [
                              PDict [(''date_acquired'', PStr ''12/27/2018''),
                                     (''num_shares'', PStr ''16.0000''),
                                     (''cost_per_share'', PStr ''39.21''),
                                     (''total_cost'', PStr ''627.32''),
                                     (''term'', PStr ''long'')]])]])]])]"

section \<open>The dashboard's charts (forecast/dashboard.py)\<close>

subsection \<open>Calendar dates\<close>

text \<open>
  A \<^verbatim>\<open>datetime.date\<close> is a year, a month and a day of the proleptic Gregorian calendar,
  with the year between 1 and 9999. \<open>toordinal\<close> is the day number Python gives a date
  (1 for the first of January of year 1).
\<close>

record date =
  year :: int
  month :: int
  day :: int

definition is_leap :: "int \<Rightarrow> bool" where
  "is_leap y = (y mod 4 = 0 \<and> (y mod 100 \<noteq> 0 \<or> y mod 400 = 0))"

definition days_in_month :: "int \<Rightarrow> int \<Rightarrow> int" where
  "days_in_month y m =
     (if m = 2 then (if is_leap y then 29 else 28)
      else if m = 4 \<or> m = 6 \<or> m = 9 \<or> m = 11 then 30
      else 31)"

definition MAXYEAR :: int where
  "MAXYEAR = 9999"

definition valid_date :: "date \<Rightarrow> bool" where
  "valid_date d =
     (1 \<le> year d \<and> year d \<le> MAXYEAR \<and> 1 \<le> month d \<and> month d \<le> 12
      \<and> 1 \<le> day d \<and> day d \<le> days_in_month (year d) (month d))"

definition days_before_year :: "int \<Rightarrow> int" where
  "days_before_year y = (let y' = y - 1 in y' * 365 + y' div 4 - y' div 100 + y' div 400)"

definition days_before_month :: "int \<Rightarrow> int \<Rightarrow> int" where
  "days_before_month y m =
     (if m = 1 then 0 else if m = 2 then 31 else if m = 3 then 59 else if m = 4 then 90
      else if m = 5 then 120 else if m = 6 then 151 else if m = 7 then 181
      else if m = 8 then 212 else if m = 9 then 243 else if m = 10 then 273
      else if m = 11 then 304 else 334)
     + (if m > 2 \<and> is_leap y then 1 else 0)"

definition toordinal :: "date \<Rightarrow> int" where
  "toordinal d = days_before_year (year d) + days_before_month (year d) (month d) + day d"

text \<open>
  \<^verbatim>\<open>d + relativedelta(days=1)\<close>: the year, month and day are kept and one day is added as
  a \<^verbatim>\<open>timedelta\<close>, which steps to the next calendar day and raises \<^verbatim>\<open>OverflowError\<close> past
  the last representable date.
\<close>

definition plus_one_day :: "date \<Rightarrow> py_error + date" where
  "plus_one_day d =
     (if year d = MAXYEAR \<and> month d = 12 \<and> day d = 31 then Inl OverflowError
      else if day d < days_in_month (year d) (month d) then Inr (d\<lparr>day := day d + 1\<rparr>)
      else if month d < 12 then Inr \<lparr>year = year d, month = month d + 1, day = 1\<rparr>
      else Inr \<lparr>year = year d + 1, month = 1, day = 1\<rparr>)"

text \<open>
  \<^verbatim>\<open>d + relativedelta(years=1)\<close>: the year is increased, the day is cut to the length of
  the month in the new year, and \<^verbatim>\<open>date.replace\<close> raises \<^verbatim>\<open>ValueError\<close> for a year past
  9999.
\<close>

definition plus_one_year :: "date \<Rightarrow> py_error + date" where
  "plus_one_year d =
     (let y = year d + 1;
          day' = min (days_in_month y (month d)) (day d)
      in if y > MAXYEAR then Inl ValueError
         else Inr \<lparr>year = y, month = month d, day = day'\<rparr>)"

subsection \<open>The charts\<close>

text \<open>
  \<^verbatim>\<open>Projector\<close>, its accounts and \<^verbatim>\<open>DATE_FORMAT\<close> live in modules that are not among
  the sources; \<open>get_charts\<close> takes them as parameters: the constructor
  \<^verbatim>\<open>Projector.from_spec\<close>, the query \<^verbatim>\<open>get_account\<close>, an account's \<^verbatim>\<open>name\<close> attribute
  and its method \<^verbatim>\<open>get_running_balance_grouped\<close> (called without an argument), and
  \<^verbatim>\<open>strftime(DATE_FORMAT)\<close>. The current date \<^verbatim>\<open>date.today()\<close> is an argument.
  A chart object \<^verbatim>\<open>ForecastLineAIO(title=..., accounts=...)\<close> is the record of its two
  arguments, each account being the pair of the \<^verbatim>\<open>name\<close> and \<^verbatim>\<open>df\<close> entries.
\<close>

record ('p, 'a, 'n, 's) projector_api =
  from_spec :: "py_obj \<Rightarrow> string \<Rightarrow> string \<Rightarrow> py_error + 'p"
  get_account :: "'p \<Rightarrow> py_obj \<Rightarrow> py_error + 'a"
  account_name :: "'a \<Rightarrow> 'n"
  get_running_balance_grouped :: "'a \<Rightarrow> py_error + 's"
  strftime :: "date \<Rightarrow> string"

record ('n, 's) ForecastLineAIO =
  chart_title :: py_obj
  chart_accounts :: "('n \<times> 's) list"

text \<open>\<^verbatim>\<open>list(map(f, xs))\<close> for an \<open>f\<close> that may raise.\<close>

fun map_err :: "('x \<Rightarrow> py_error + 'y) \<Rightarrow> 'x list \<Rightarrow> py_error + 'y list" where
  "map_err f [] = Inr []"
| "map_err f (x # xs) = bind_err (f x) (\<lambda>y. bind_err (map_err f xs) (\<lambda>ys. Inr (y # ys)))"

text \<open>Lines 11 and 12: the forecast window.\<close>

definition forecast_window :: "date \<Rightarrow> py_error + (date \<times> date)" where
  "forecast_window today =
     bind_err (plus_one_day today) (\<lambda>start_date.
     bind_err (plus_one_year start_date) (\<lambda>end_date.
       Inr (start_date, end_date)))"

text \<open>The \<^verbatim>\<open>lambda\<close> of lines 20 to 23: the projector is queried twice for the account.\<close>

definition chart_account ::
  "('p, 'a, 'n, 's) projector_api \<Rightarrow> 'p \<Rightarrow> py_obj \<Rightarrow> py_error + ('n \<times> 's)" where
  "chart_account api projector a =
     bind_err (get_account api projector a) (\<lambda>account1.
     bind_err (get_account api projector a) (\<lambda>account2.
     bind_err (get_running_balance_grouped api account2) (\<lambda>series.
       Inr (account_name api account1, series))))"

text \<open>The body of the loop of lines 17 to 27.\<close>

definition make_chart ::
  "('p, 'a, 'n, 's) projector_api \<Rightarrow> 'p \<Rightarrow> py_obj \<Rightarrow> py_error + ('n, 's) ForecastLineAIO" where
  "make_chart api projector chart =
     bind_err (getitem chart ''account_ids'') (\<lambda>account_ids.
     bind_err (py_iter account_ids) (\<lambda>ids.
     bind_err (map_err (chart_account api projector) ids) (\<lambda>accounts.
     bind_err (getitem chart ''name'') (\<lambda>title.
       Inr \<lparr>chart_title = title, chart_accounts = accounts\<rparr>))))"

text \<open>Lines 16 to 28, for the projector built before.\<close>

definition build_charts ::
  "('p, 'a, 'n, 's) projector_api \<Rightarrow> 'p \<Rightarrow> py_obj \<Rightarrow> py_error + ('n, 's) ForecastLineAIO list" where
  "build_charts api projector spec =
     bind_err (getitem spec ''chart_spec'') (\<lambda>chart_spec.
     bind_err (py_iter chart_spec) (\<lambda>charts.
       map_err (make_chart api projector) charts))"

definition get_charts ::
  "('p, 'a, 'n, 's) projector_api \<Rightarrow> date \<Rightarrow> py_obj \<Rightarrow> py_error + ('n, 's) ForecastLineAIO list" where
  "get_charts api today spec =
     bind_err (forecast_window today) (\<lambda>(start_date, end_date).
     bind_err (from_spec api spec (strftime api start_date) (strftime api end_date)) (\<lambda>projector.
       build_charts api projector spec))"

text \<open>
  A stand-in for the projector, to evaluate \<open>get_charts\<close> on concrete inputs: it accepts
  every spec, an account is its own id and name, its series is empty, and dates are
  formatted to the empty string.
\<close>

definition stub_api :: "(unit, py_obj, py_obj, (string \<times> int) list) projector_api" where
  "stub_api =
     \<lparr>from_spec = (\<lambda>spec start_date end_date. Inr ()),
      get_account = (\<lambda>projector a. Inr a),
      account_name = (\<lambda>a. a),
      get_running_balance_grouped = (\<lambda>a. Inr []),
      strftime = (\<lambda>d. [])\<rparr>"

section \<open>The projection engine\<close>

text \<open>
  Modelled from the spec: the projection engine behind \<^verbatim>\<open>Projector.from_spec\<close> and
  \<^verbatim>\<open>Account.get_running_balance_grouped\<close> (module \<^verbatim>\<open>forecast.projector\<close>), which is
  not among the sources. The definitions follow sections 3 and 4 of the
  specification: accounts, transaction rules, resolved events, the ledger accumulator, the
  projector and the grouping. Amounts are signed decimals, here rational numbers; calendar
  dates are compared by their day number.

  The DateSpec resolver of section 4.1 is a parameter \<open>R\<close>: it maps a date
  specification and a window to the dates of the rule. Its contract, as far as the ledgers
  depend on it, is that the dates of one rule are strictly increasing, hence without
  duplicates (\<open>resolver_contract\<close>).
\<close>

datatype amount_spec = Fixed rat | PercentOf string rat

datatype direction = Deposit | Withdrawal | Transfer

record 'ds transaction_rule =
  rule_label :: string
  rule_amount :: amount_spec
  rule_direction :: direction
  source_account_id :: string
  dest_account_id :: "string option"
  rule_date_spec :: 'ds
  effective_start :: "date option"
  effective_end :: "date option"

record account_decl =
  account_id :: string
  display_name :: string
  initial_balance :: rat
  account_start :: date

record 'ds forecast_spec =
  account_decls :: "account_decl list"
  rule_decls :: "'ds transaction_rule list"

text \<open>A resolved event of one account, with the declaration index of its rule.\<close>

record event =
  event_date :: date
  event_index :: nat
  event_delta :: rat
  event_label :: string

record ledger_entry =
  entry_date :: date
  entry_delta :: rat
  running_balance :: rat
  entry_label :: string

definition on_or_before :: "date \<Rightarrow> date \<Rightarrow> bool" where
  "on_or_before a b = (toordinal a \<le> toordinal b)"

definition strictly_increasing :: "date list \<Rightarrow> bool" where
  "strictly_increasing ds = sorted_wrt (\<lambda>a b. toordinal a < toordinal b) ds"

text \<open>
  Modelled from the spec: the forecast window, narrowed by the effective sub-window of a
  transaction rule (section 3); the rule model itself is not in the sources.
\<close>

definition effective_window :: "date \<times> date \<Rightarrow> 'ds transaction_rule \<Rightarrow> date \<times> date" where
  "effective_window w r =
     (case effective_start r of
        None \<Rightarrow> fst w
      | Some s \<Rightarrow> if on_or_before (fst w) s then s else fst w,
      case effective_end r of
        None \<Rightarrow> snd w
      | Some e \<Rightarrow> if on_or_before e (snd w) then e else snd w)"

text \<open>
  Modelled from the spec: the dates of a rule for an account (sections 3 and 4.1, resolver
  not in the sources); no event applies before the account's start date.
\<close>

definition rule_dates ::
  "('ds \<Rightarrow> date \<times> date \<Rightarrow> date list) \<Rightarrow> date \<times> date \<Rightarrow> account_decl \<Rightarrow> 'ds transaction_rule \<Rightarrow> date list" where
  "rule_dates R w a r =
     filter (on_or_before (account_start a)) (R (rule_date_spec r) (effective_window w r))"

definition resolver_contract ::
  "('ds \<Rightarrow> date \<times> date \<Rightarrow> date list) \<Rightarrow> 'ds forecast_spec \<Rightarrow> date \<times> date \<Rightarrow> bool" where
  "resolver_contract R S w =
     list_all (\<lambda>r. strictly_increasing (R (rule_date_spec r) (effective_window w r))) (rule_decls S)"

text \<open>
  Modelled from the spec: the rule evaluator of section 4.2, which is not in the sources.
  The sign a rule has for an account: a deposit credits its account, a
  withdrawal debits it, a transfer debits the source and credits the destination; a rule
  that names the account neither as source nor as destination has no event there.
\<close>

definition rule_sign :: "string \<Rightarrow> 'ds transaction_rule \<Rightarrow> rat option" where
  "rule_sign x r =
     (if source_account_id r = x
      then Some (case rule_direction r of Deposit \<Rightarrow> 1 | Withdrawal \<Rightarrow> - 1 | Transfer \<Rightarrow> - 1)
      else if rule_direction r = Transfer \<and> dest_account_id r = Some x then Some 1
      else None)"

text \<open>
  Modelled from the spec: the amount of a rule on a date (section 4.2, not in the
  sources): the literal value, or the percentage of the balance the
  referenced account has on that date (\<open>bal\<close> gives the balances of the accounts evaluated
  before).
\<close>

definition rule_amount_at :: "(string \<Rightarrow> date \<Rightarrow> rat) \<Rightarrow> 'ds transaction_rule \<Rightarrow> date \<Rightarrow> rat" where
  "rule_amount_at bal r d =
     (case rule_amount r of Fixed v \<Rightarrow> v | PercentOf b p \<Rightarrow> bal b d * p / 100)"

definition rule_events ::
  "('ds \<Rightarrow> date \<times> date \<Rightarrow> date list) \<Rightarrow> date \<times> date \<Rightarrow> (string \<Rightarrow> date \<Rightarrow> rat) \<Rightarrow> account_decl
   \<Rightarrow> nat \<times> 'ds transaction_rule \<Rightarrow> event list" where
  "rule_events R w bal a ir =
     (case rule_sign (account_id a) (snd ir) of
        None \<Rightarrow> []
      | Some sg \<Rightarrow>
          map (\<lambda>d. \<lparr>event_date = d, event_index = fst ir,
                    event_delta = sg * rule_amount_at bal (snd ir) d,
                    event_label = rule_label (snd ir)\<rparr>)
              (rule_dates R w a (snd ir)))"

text \<open>
  Modelled from the spec: the events of all rules of an account, merged into one sequence
  (section 4.3, projector not in the sources).
\<close>

definition account_events ::
  "('ds \<Rightarrow> date \<times> date \<Rightarrow> date list) \<Rightarrow> 'ds forecast_spec \<Rightarrow> date \<times> date
   \<Rightarrow> (string \<Rightarrow> date \<Rightarrow> rat) \<Rightarrow> account_decl \<Rightarrow> event list" where
  "account_events R S w bal a = concat (map (rule_events R w bal a) (enumerate 0 (rule_decls S)))"

text \<open>
  Modelled from the spec: the sorting of section 4.3 (projector not in the sources), by
  date, then rule declaration order. The sorting procedure is left open: any
  arrangement of the events that is ordered by this key is admitted.
\<close>

definition event_key :: "event \<Rightarrow> int \<times> nat" where
  "event_key e = (toordinal (event_date e), event_index e)"

definition ordered_events :: "event list \<Rightarrow> event list \<Rightarrow> bool" where
  "ordered_events evs es = (mset es = mset evs \<and> sorted (map event_key es))"

text \<open>
  Modelled from the spec: the ledger accumulator of section 4.4, which is not in the
  sources. Each event adds its delta to the previous balance; the ledger starts with the
  seed entry.
\<close>

fun fold_events :: "rat \<Rightarrow> event list \<Rightarrow> ledger_entry list" where
  "fold_events previous_balance [] = []"
| "fold_events previous_balance (e # es) =
     (let new_balance = previous_balance + event_delta e
      in \<lparr>entry_date = event_date e, entry_delta = event_delta e,
          running_balance = new_balance, entry_label = event_label e\<rparr>
         # fold_events new_balance es)"

definition accumulate :: "account_decl \<Rightarrow> event list \<Rightarrow> ledger_entry list" where
  "accumulate a es =
     \<lparr>entry_date = account_start a, entry_delta = 0, running_balance = initial_balance a,
      entry_label = ''seed''\<rparr>
     # fold_events (initial_balance a) es"

text \<open>
  Modelled from the spec: the balance a formula amount reads (section 4.2, not in the
  sources), that is the balance of an evaluated account on a date: the running balance of its last ledger
  entry dated on or before it (zero before the first entry).
\<close>

definition balance_as_of :: "ledger_entry list \<Rightarrow> date \<Rightarrow> rat" where
  "balance_as_of L d =
     (case filter (\<lambda>e. on_or_before (entry_date e) d) L of
        [] \<Rightarrow> 0
      | e # es \<Rightarrow> running_balance (last (e # es)))"

text \<open>
  Modelled from the spec: the dependency graph of section 4.3 (projector not in the
  sources): account \<open>x\<close> depends on account \<open>b\<close> when a rule
  attached to \<open>x\<close> reads the balance of \<open>b\<close>, or transfers from \<open>b\<close> to \<open>x\<close>.
\<close>

definition depends_on :: "'ds forecast_spec \<Rightarrow> string \<Rightarrow> string \<Rightarrow> bool" where
  "depends_on S x b =
     list_ex (\<lambda>r. rule_sign x r \<noteq> None
                 \<and> ((case rule_amount r of Fixed v \<Rightarrow> False | PercentOf c p \<Rightarrow> c = b)
                    \<or> (rule_direction r = Transfer \<and> dest_account_id r = Some x
                        \<and> source_account_id r = b)))
             (rule_decls S)"

text \<open>
  Modelled from the spec: the validation of sections 4.3 and 7 (projector not in the
  sources): account ids are unique, every account a rule names is declared, a rule has a
  destination exactly when it is a transfer, and a transfer moves money between two
  different accounts.
\<close>

definition declared :: "'ds forecast_spec \<Rightarrow> string \<Rightarrow> bool" where
  "declared S x = (x \<in> set (map account_id (account_decls S)))"

definition valid_rule :: "'ds forecast_spec \<Rightarrow> 'ds transaction_rule \<Rightarrow> bool" where
  "valid_rule S r =
     (declared S (source_account_id r)
      \<and> (case dest_account_id r of
           None \<Rightarrow> rule_direction r \<noteq> Transfer
         | Some d \<Rightarrow> rule_direction r = Transfer \<and> declared S d \<and> d \<noteq> source_account_id r)
      \<and> (case rule_amount r of Fixed v \<Rightarrow> True | PercentOf b p \<Rightarrow> declared S b))"

definition valid_spec :: "'ds forecast_spec \<Rightarrow> bool" where
  "valid_spec S = (distinct (map account_id (account_decls S)) \<and> list_all (valid_rule S) (rule_decls S))"

text \<open>
  Modelled from the spec: the evaluation of an account by the projector (section 4.3,
  \<^verbatim>\<open>Projector.from_spec\<close> is not in the sources). An account is evaluated once the accounts it depends on have
  their ledgers (\<open>Ls\<close>): its events are resolved, with formula amounts read from those
  ledgers, ordered by date and declaration order, and accumulated. Along a dependency
  cycle no ledger is derivable: the projection fails as a whole.
\<close>

inductive ledger_of ::
  "('ds \<Rightarrow> date \<times> date \<Rightarrow> date list) \<Rightarrow> 'ds forecast_spec \<Rightarrow> date \<times> date
   \<Rightarrow> string \<Rightarrow> ledger_entry list \<Rightarrow> bool"
  for R :: "'ds \<Rightarrow> date \<times> date \<Rightarrow> date list" and S :: "'ds forecast_spec" and w :: "date \<times> date"
where
  evaluate:
    "a \<in> set (account_decls S) \<Longrightarrow>
     (\<And>b. depends_on S (account_id a) b \<Longrightarrow> ledger_of R S w b (Ls b)) \<Longrightarrow>
     ordered_events (account_events R S w (\<lambda>b. balance_as_of (Ls b)) a) es \<Longrightarrow>
     ledger_of R S w (account_id a) (accumulate a es)"

text \<open>
  Modelled from the spec: the projection entry point \<^verbatim>\<open>Projector.from_spec\<close> (section
  4.3), which is not in the sources. A run yields a projector \<open>P\<close>, which answers
  \<^verbatim>\<open>get_account(id)\<close> with the ledger of the account; it exists only for a valid
  specification all of whose accounts have a ledger.
\<close>

definition projection ::
  "('ds \<Rightarrow> date \<times> date \<Rightarrow> date list) \<Rightarrow> 'ds forecast_spec \<Rightarrow> date \<times> date
   \<Rightarrow> (string \<Rightarrow> ledger_entry list) \<Rightarrow> bool" where
  "projection R S w P =
     (valid_spec S \<and> (\<forall>a \<in> set (account_decls S). ledger_of R S w (account_id a) (P (account_id a))))"

text \<open>
  A small specification to evaluate the engine on: a checking account with a salary, a rent
  and a monthly transfer to a savings account, which also receives ten percent of the
  checking balance. A date specification is the explicit list of its dates here, and the
  resolver clips it to the window.
\<close>

definition example_resolver :: "date list \<Rightarrow> date \<times> date \<Rightarrow> date list" where
  "example_resolver ds w = filter (\<lambda>d. on_or_before (fst w) d \<and> on_or_before d (snd w)) ds"

definition example_window :: "date \<times> date" where
  "example_window = (\<lparr>year = 2024, month = 1, day = 1\<rparr>, \<lparr>year = 2024, month = 3, day = 31\<rparr>)"

definition example_checking :: account_decl where
  "example_checking =
     \<lparr>account_id = ''checking'', display_name = ''Checking'', initial_balance = 1000,
      account_start = \<lparr>year = 2024, month = 1, day = 1\<rparr>\<rparr>"

definition example_savings :: account_decl where
  "example_savings =
     \<lparr>account_id = ''savings'', display_name = ''Savings'', initial_balance = 0,
      account_start = \<lparr>year = 2024, month = 1, day = 1\<rparr>\<rparr>"

definition example_spec :: "date list forecast_spec" where
  "example_spec =
     \<lparr>account_decls = [example_checking, example_savings],
      rule_decls =
        [\<lparr>rule_label = ''salary'', rule_amount = Fixed 2000, rule_direction = Deposit,
          source_account_id = ''checking'', dest_account_id = None,
          rule_date_spec = [\<lparr>year = 2024, month = 1, day = 1\<rparr>, \<lparr>year = 2024, month = 2, day = 1\<rparr>],
          effective_start = None, effective_end = None\<rparr>,
         \<lparr>rule_label = ''rent'', rule_amount = Fixed 1200, rule_direction = Withdrawal,
          source_account_id = ''checking'', dest_account_id = None,
          rule_date_spec = [\<lparr>year = 2024, month = 1, day = 3\<rparr>, \<lparr>year = 2024, month = 2, day = 3\<rparr>],
          effective_start = None, effective_end = None\<rparr>,
         \<lparr>rule_label = ''save'', rule_amount = Fixed 500, rule_direction = Transfer,
          source_account_id = ''checking'', dest_account_id = Some ''savings'',
          rule_date_spec = [\<lparr>year = 2024, month = 1, day = 3\<rparr>],
          effective_start = None, effective_end = None\<rparr>,
         \<lparr>rule_label = ''match'', rule_amount = PercentOf ''checking'' 10, rule_direction = Deposit,
          source_account_id = ''savings'', dest_account_id = None,
          rule_date_spec = [\<lparr>year = 2024, month = 2, day = 3\<rparr>],
          effective_start = None, effective_end = None\<rparr>]\<rparr>"

definition example_checking_ledger :: "ledger_entry list" where
  "example_checking_ledger =
     [\<lparr>entry_date = \<lparr>year = 2024, month = 1, day = 1\<rparr>, entry_delta = 0,
       running_balance = 1000, entry_label = ''seed''\<rparr>,
      \<lparr>entry_date = \<lparr>year = 2024, month = 1, day = 1\<rparr>, entry_delta = 2000,
       running_balance = 3000, entry_label = ''salary''\<rparr>,
      \<lparr>entry_date = \<lparr>year = 2024, month = 1, day = 3\<rparr>, entry_delta = - 1200,
       running_balance = 1800, entry_label = ''rent''\<rparr>,
      \<lparr>entry_date = \<lparr>year = 2024, month = 1, day = 3\<rparr>, entry_delta = - 500,
       running_balance = 1300, entry_label = ''save''\<rparr>,
      \<lparr>entry_date = \<lparr>year = 2024, month = 2, day = 1\<rparr>, entry_delta = 2000,
       running_balance = 3300, entry_label = ''salary''\<rparr>,
      \<lparr>entry_date = \<lparr>year = 2024, month = 2, day = 3\<rparr>, entry_delta = - 1200,
       running_balance = 2100, entry_label = ''rent''\<rparr>]"

definition example_savings_ledger :: "ledger_entry list" where
  "example_savings_ledger =
     [\<lparr>entry_date = \<lparr>year = 2024, month = 1, day = 1\<rparr>, entry_delta = 0,
       running_balance = 0, entry_label = ''seed''\<rparr>,
      \<lparr>entry_date = \<lparr>year = 2024, month = 1, day = 3\<rparr>, entry_delta = 500,
       running_balance = 500, entry_label = ''save''\<rparr>,
      \<lparr>entry_date = \<lparr>year = 2024, month = 2, day = 3\<rparr>, entry_delta = 210,
       running_balance = 710, entry_label = ''match''\<rparr>]"

definition example_projector :: "string \<Rightarrow> ledger_entry list" where
  "example_projector x = (if x = ''checking'' then example_checking_ledger else example_savings_ledger)"

subsection \<open>Grouping\<close>

text \<open>
  Modelled from the spec: the grouping of section 4.5 behind
  \<^verbatim>\<open>Account.get_running_balance_grouped\<close>, which is not among the sources. The
  requested period is an argument. A bucket of a period is numbered by an integer (the day
  number, or the count of months, quarters or years), and its label names the period
  and the bucket. The buckets run from the one of the first ledger entry to the one of the
  last; the balance of a bucket is the running balance of the last ledger entry that falls
  in it or before it, so that a bucket without entries carries the balance forward.
\<close>

datatype period = Daily | Monthly | Quarterly | Yearly

datatype period_label = DayLabel int | MonthLabel int int | QuarterLabel int int | YearLabel int

definition bucket :: "period \<Rightarrow> date \<Rightarrow> int" where
  "bucket p d =
     (case p of
        Daily \<Rightarrow> toordinal d
      | Monthly \<Rightarrow> year d * 12 + (month d - 1)
      | Quarterly \<Rightarrow> year d * 4 + (month d - 1) div 3
      | Yearly \<Rightarrow> year d)"

definition label_of :: "period \<Rightarrow> int \<Rightarrow> period_label" where
  "label_of p b =
     (case p of
        Daily \<Rightarrow> DayLabel b
      | Monthly \<Rightarrow> MonthLabel (b div 12) (b mod 12 + 1)
      | Quarterly \<Rightarrow> QuarterLabel (b div 4) (b mod 4 + 1)
      | Yearly \<Rightarrow> YearLabel b)"

text \<open>
  Modelled from the spec: the balance reported for a bucket and the grouped series
  (section 4.5; \<^verbatim>\<open>Account.get_running_balance_grouped\<close> is not in the sources).
\<close>

definition closing_balance :: "ledger_entry list \<Rightarrow> period \<Rightarrow> int \<Rightarrow> rat" where
  "closing_balance L p b =
     (case filter (\<lambda>e. bucket p (entry_date e) \<le> b) L of
        [] \<Rightarrow> 0
      | e # es \<Rightarrow> running_balance (last (e # es)))"

definition group_balances :: "ledger_entry list \<Rightarrow> period \<Rightarrow> (period_label \<times> rat) list" where
  "group_balances L p =
     (case L of
        [] \<Rightarrow> []
      | e # es \<Rightarrow>
          map (\<lambda>b. (label_of p b, closing_balance L p b))
              [bucket p (entry_date e) .. bucket p (entry_date (last L))])"

text \<open>The ledger of the example scenario of section 8 of the specification.\<close>

definition scenario_ledger :: "ledger_entry list" where
  "scenario_ledger =
     [\<lparr>entry_date = \<lparr>year = 2024, month = 1, day = 1\<rparr>, entry_delta = 0,
       running_balance = 1000, entry_label = ''seed''\<rparr>,
      \<lparr>entry_date = \<lparr>year = 2024, month = 1, day = 1\<rparr>, entry_delta = 2000,
       running_balance = 3000, entry_label = ''salary''\<rparr>,
      \<lparr>entry_date = \<lparr>year = 2024, month = 1, day = 3\<rparr>, entry_delta = - 1200,
       running_balance = 1800, entry_label = ''rent''\<rparr>,
      \<lparr>entry_date = \<lparr>year = 2024, month = 2, day = 1\<rparr>, entry_delta = 2000,
       running_balance = 3800, entry_label = ''salary''\<rparr>,
      \<lparr>entry_date = \<lparr>year = 2024, month = 2, day = 3\<rparr>, entry_delta = - 1200,
       running_balance = 2600, entry_label = ''rent''\<rparr>,
      \<lparr>entry_date = \<lparr>year = 2024, month = 3, day = 1\<rparr>, entry_delta = 2000,
       running_balance = 4600, entry_label = ''salary''\<rparr>,
      \<lparr>entry_date = \<lparr>year = 2024, month = 3, day = 3\<rparr>, entry_delta = - 1200,
       running_balance = 3400, entry_label = ''rent''\<rparr>]"

text \<open>
  Modelled from the spec: the grouping as a method whose period is an explicit parameter,
  \<^verbatim>\<open>get_running_balance_grouped(period)\<close> of section 4.3 (the method is not in the
  sources). A Python method is a function of the object and of the list of the positional
  arguments of a call; a call that does not give the period, or gives more than the
  period, raises \<^verbatim>\<open>TypeError\<close>.
\<close>

definition grouped_by_period ::
  "ledger_entry list \<Rightarrow> period list \<Rightarrow> py_error + (period_label \<times> rat) list" where
  "grouped_by_period L args = (case args of [p] \<Rightarrow> Inr (group_balances L p) | _ \<Rightarrow> Inl TypeError)"

text \<open>
  The call of line 22 of \<^verbatim>\<open>forecast/dashboard.py\<close>,
  \<^verbatim>\<open>get_running_balance_grouped()\<close>: the method is applied to the account and to no
  argument.
\<close>

definition call_without_arguments :: "('a \<Rightarrow> 'arg list \<Rightarrow> py_error + 's) \<Rightarrow> 'a \<Rightarrow> py_error + 's" where
  "call_without_arguments m self = m self []"



section \<open>Theorems\<close>

subsection \<open>The formatter factory\<close>

lemma get_supported_formatters_eq: "get_supported_formatters = [''csv'']"
  by (simp add: get_supported_formatters_def formatters_def)

text \<open>
  Claim C9. \<open>get_formatter name\<close> returns a \<open>CsvFormatter\<close> instance when the name is
  \<open>csv\<close>; it raises \<open>UnsupportedFormatterException\<close> exactly when the name is not a key of
  the formatter dictionary, and the message of the exception lists the supported names.
\<close>

theorem get_formatter_csv_or_unsupported:
  "get_formatter ''csv'' = Inr CsvFormatter
   \<and> ((\<exists>msg. get_formatter name = Inl (UnsupportedFormatterException msg))
        = (name \<notin> set get_supported_formatters))
   \<and> (name \<notin> set get_supported_formatters \<longrightarrow>
        get_formatter name =
          Inl (UnsupportedFormatterException
                (''Formatter must be one of '' @ join '', '' get_supported_formatters)))
   \<and> (name \<in> set get_supported_formatters \<longrightarrow> get_formatter name = Inr CsvFormatter)"
  by (auto simp: get_formatter_def formatters_def get_supported_formatters_def)

theorem get_formatter_csv_or_unsupported_witness:
  "get_formatter ''csv'' = Inr CsvFormatter
   \<and> get_formatter ''json'' = Inl (UnsupportedFormatterException ''Formatter must be one of csv'')
   \<and> ''json'' \<notin> set get_supported_formatters
   \<and> ''csv'' \<in> set get_supported_formatters"
  using get_formatter_csv_or_unsupported [of "''json''"]
  by (simp add: get_supported_formatters_eq)

subsection \<open>Loading the dashboard specifications\<close>

text \<open>
  Claim C10. \<open>get_yaml\<close> on \<open>forecast\<close> parses the user forecast file when it exists and the
  distributed default otherwise, likewise on \<open>invest\<close>; on every other argument it raises
  (\<open>UnboundLocalError\<close>, no file having been selected) and has opened no file.
\<close>

theorem get_yaml_selects_file:
  "(fs (FORECAST_FILE P) = Some (File c) \<longrightarrow>
      get_yaml P safe_load fs ''forecast'' = ([FORECAST_FILE P], safe_load c))
   \<and> (fs (FORECAST_FILE P) = None \<and> fs (FORECAST_DIST_FILE P) = Some (File c) \<longrightarrow>
      get_yaml P safe_load fs ''forecast'' = ([FORECAST_DIST_FILE P], safe_load c))
   \<and> (fs (INVEST_FILE P) = Some (File c) \<longrightarrow>
      get_yaml P safe_load fs ''invest'' = ([INVEST_FILE P], safe_load c))
   \<and> (fs (INVEST_FILE P) = None \<and> fs (INVEST_DIST_FILE P) = Some (File c) \<longrightarrow>
      get_yaml P safe_load fs ''invest'' = ([INVEST_DIST_FILE P], safe_load c))
   \<and> (type' \<noteq> ''forecast'' \<and> type' \<noteq> ''invest'' \<longrightarrow>
      get_yaml P safe_load fs type' = ([], Inl UnboundLocalError))"
  by (simp add: get_yaml_def path_exists_def open_read_def bind_err_def)


theorem get_yaml_selects_file_witness:
  "get_yaml \<lparr>FORECAST_DIST_FILE = ''forecast.dist.yml'', FORECAST_FILE = ''forecast.yml'',
              INVEST_DIST_FILE = ''invest.dist.yml'', INVEST_FILE = ''invest.yml''\<rparr>
     Inr [''forecast.yml'' \<mapsto> File ''accounts: []''] ''forecast''
     = ([''forecast.yml''], Inr ''accounts: []'')
   \<and> get_yaml \<lparr>FORECAST_DIST_FILE = ''forecast.dist.yml'', FORECAST_FILE = ''forecast.yml'',
              INVEST_DIST_FILE = ''invest.dist.yml'', INVEST_FILE = ''invest.yml''\<rparr>
     Inr [''invest.dist.yml'' \<mapsto> File ''tickers: []''] ''invest''
     = ([''invest.dist.yml''], Inr ''tickers: []'')
   \<and> get_yaml \<lparr>FORECAST_DIST_FILE = ''forecast.dist.yml'', FORECAST_FILE = ''forecast.yml'',
              INVEST_DIST_FILE = ''invest.dist.yml'', INVEST_FILE = ''invest.yml''\<rparr>
     Inr [''forecast.yml'' \<mapsto> File ''accounts: []''] ''budget''
     = ([], Inl UnboundLocalError :: py_error + string)"
  using
    get_yaml_selects_file [of "[''forecast.yml'' \<mapsto> File ''accounts: []'']"
      "\<lparr>FORECAST_DIST_FILE = ''forecast.dist.yml'', FORECAST_FILE = ''forecast.yml'',
        INVEST_DIST_FILE = ''invest.dist.yml'', INVEST_FILE = ''invest.yml''\<rparr>"
      "''accounts: []''" Inr "''budget''"]
    get_yaml_selects_file [of "[''invest.dist.yml'' \<mapsto> File ''tickers: []'']"
      "\<lparr>FORECAST_DIST_FILE = ''forecast.dist.yml'', FORECAST_FILE = ''forecast.yml'',
        INVEST_DIST_FILE = ''invest.dist.yml'', INVEST_FILE = ''invest.yml''\<rparr>"
      "''tickers: []''" Inr "''budget''"]
  by simp

subsection \<open>The content-addressed store\<close>

lemma value_key_neq_type_key: "value_key h \<noteq> type_key h'"
  by (simp add: value_key_def type_key_def)

lemma save_serialized:
  assumes "serialized_form C val = Inr b"
  shows "save C r val =
           Inr (r(value_key (hash_hex C b) \<mapsto> b, type_key (hash_hex C b) \<mapsto> type_tag val),
                hash_hex C b)"
  using assms
  by (cases val) (simp_all add: save_def serialized_form_def type_tag_def bind_err_def)

lemma save_raises:
  assumes "serialized_form C val = Inl e"
  shows "save C r val = Inl e"
  using assms
  by (cases val) (simp_all add: save_def serialized_form_def bind_err_def)

text \<open>
  Claim C2. \<open>save\<close> serializes the value (a data frame as gzip-compressed Parquet bytes, any
  other value as Plotly-encoded JSON bytes), derives the key from the SHA-512 hash of
  exactly those bytes, writes the bytes and the type tag under the two keys built from
  that hash, leaves every other key alone, and returns the hash; two values with the same
  serialized form get the same key, whatever the store held.
\<close>

theorem save_keyed_by_content_hash:
  "(serialized_form C val = Inr b \<longrightarrow>
      (\<exists>r'. save C r val = Inr (r', sha512_hexdigest C b)
            \<and> r' (value_key (sha512_hexdigest C b)) = Some b
            \<and> r' (type_key (sha512_hexdigest C b)) = Some (type_tag val)
            \<and> (\<forall>k. k \<noteq> value_key (sha512_hexdigest C b) \<and> k \<noteq> type_key (sha512_hexdigest C b)
                   \<longrightarrow> r' k = r k)))
   \<and> (serialized_form C val = Inr b \<and> serialized_form C val2 = Inr b \<longrightarrow>
      map_sum id snd (save C r val) = map_sum id snd (save C r2 val2))"
  by (simp add: save_serialized hash_hex_def value_key_neq_type_key)

theorem save_keyed_by_content_hash_witness:
  "serialized_form
      \<lparr>to_parquet_gzip = Inr, read_parquet = Inr, plotly_json_dumps = (\<lambda>n::nat. Inr (replicate n CHR ''1'')),
       json_loads = (\<lambda>s. Inr (length s)), sha512_hexdigest = rev\<rparr> (DataFrame ''ab'') = Inr ''ab''
   \<and> save
      \<lparr>to_parquet_gzip = Inr, read_parquet = Inr, plotly_json_dumps = (\<lambda>n::nat. Inr (replicate n CHR ''1'')),
       json_loads = (\<lambda>s. Inr (length s)), sha512_hexdigest = rev\<rparr> Map.empty (DataFrame ''ab'')
     = Inr ([''_dash_aio_components_value_ba'' \<mapsto> ''ab'',
             ''_dash_aio_components_type_ba'' \<mapsto> ''pd.DataFrame''], ''ba'')"
proof -
  let ?C = "\<lparr>to_parquet_gzip = Inr, read_parquet = Inr,
              plotly_json_dumps = (\<lambda>n::nat. Inr (replicate n CHR ''1'')),
              json_loads = (\<lambda>s. Inr (length s)), sha512_hexdigest = rev\<rparr>"
  have h: "serialized_form ?C (DataFrame ''ab'') = Inr ''ab''"
    by (simp add: serialized_form_def)
  from save_keyed_by_content_hash [of ?C "DataFrame ''ab''" "''ab''" Map.empty "DataFrame ''ab''" Map.empty] h
  obtain r' where r': "save ?C Map.empty (DataFrame ''ab'') = Inr (r', ''ba'')"
      "r' (value_key ''ba'') = Some ''ab''" "r' (type_key ''ba'') = Some (type_tag (DataFrame ''ab'' :: (string, nat) py_value))"
      "\<forall>k. k \<noteq> value_key ''ba'' \<and> k \<noteq> type_key ''ba'' \<longrightarrow> r' k = None"
    by auto
  have "r' = [''_dash_aio_components_value_ba'' \<mapsto> ''ab'',
              ''_dash_aio_components_type_ba'' \<mapsto> ''pd.DataFrame'']"
  proof
    fix k show "r' k = [''_dash_aio_components_value_ba'' \<mapsto> ''ab'',
              ''_dash_aio_components_type_ba'' \<mapsto> ''pd.DataFrame''] k"
      using r'(2-4) by (simp add: value_key_def type_key_def type_tag_def)
  qed
  with r'(1) h show ?thesis by simp
qed

text \<open>
  Claim C8. Loading what \<open>save\<close> has just stored: a data frame comes back as the data frame
  that reading its Parquet bytes gives, which is the saved one when Parquet reading inverts
  Parquet writing; any other value comes back as the JSON decoding of its Plotly-encoded
  serialization.
\<close>

theorem load_save_round_trip:
  "(to_parquet_gzip C df = Inr b \<and> read_parquet C b = Inr df \<longrightarrow>
      (\<exists>r' k. save C r (DataFrame df) = Inr (r', k) \<and> load C r' k = Inr (DataFrame df)))
   \<and> (plotly_json_dumps C v = Inr s \<and> json_loads C s = Inr l \<longrightarrow>
      (\<exists>r' k. save C r (Other v) = Inr (r', k) \<and> load C r' k = Inr (Other l)))"
  by (simp add: save_serialized serialized_form_def type_tag_def load_def bind_err_def
      value_key_neq_type_key)

theorem load_save_round_trip_witness:
  "(\<exists>r' k. save \<lparr>to_parquet_gzip = Inr, read_parquet = Inr,
                  plotly_json_dumps = (\<lambda>n::nat. Inr (replicate n CHR ''1'')),
                  json_loads = (\<lambda>s. Inr (int (length s))), sha512_hexdigest = rev\<rparr>
             Map.empty (DataFrame ''ab'') = Inr (r', k)
         \<and> load \<lparr>to_parquet_gzip = Inr, read_parquet = Inr,
                  plotly_json_dumps = (\<lambda>n::nat. Inr (replicate n CHR ''1'')),
                  json_loads = (\<lambda>s. Inr (int (length s))), sha512_hexdigest = rev\<rparr>
             r' k = Inr (DataFrame ''ab''))
   \<and> (\<exists>r' k. save \<lparr>to_parquet_gzip = Inr, read_parquet = Inr,
                  plotly_json_dumps = (\<lambda>n::nat. Inr (replicate n CHR ''1'')),
                  json_loads = (\<lambda>s. Inr (int (length s))), sha512_hexdigest = rev\<rparr>
             Map.empty (Other 3 :: (string, nat) py_value) = Inr (r', k)
         \<and> load \<lparr>to_parquet_gzip = Inr, read_parquet = Inr,
                  plotly_json_dumps = (\<lambda>n::nat. Inr (replicate n CHR ''1'')),
                  json_loads = (\<lambda>s. Inr (int (length s))), sha512_hexdigest = rev\<rparr>
             r' k = Inr (Other 3))"
  using load_save_round_trip [of
      "\<lparr>to_parquet_gzip = Inr, read_parquet = Inr,
        plotly_json_dumps = (\<lambda>n::nat. Inr (replicate n CHR ''1'')),
        json_loads = (\<lambda>s. Inr (int (length s))), sha512_hexdigest = rev\<rparr>"
      "''ab''" "''ab''" Map.empty 3 "''111''" 3]
  by (simp add: numeral_3_eq_3)

subsection \<open>The CSV export\<close>

lemma writeheader_rows: "writeheader [] = ([map PStr HEADERS], Inr ())"
  by (simp add: writeheader_def writerow_def HEADERS_def)

lemma writerow_lot:
  "writerow [(''ticker'', tk), (''date_acquired'', da), (''num_shares'', ns),
             (''cost_per_share'', cps), (''total_cost'', tc), (''account_name'', an),
             (''term'', tm)] rows
   = (rows @ [[an, tk, da, ns, cps, tc, tm]], Inr ())"
  by (simp add: writerow_def HEADERS_def)

lemma write_lot_ok:
  assumes "lot_ok lot" "has_keys cb [''ticker'']" "has_keys a [''account_name'']"
  shows "write_lot a cb lot rows = (rows @ [lot_row a cb lot], Inr ())"
  using assms
  by (auto simp: write_lot_def lot_ok_def has_keys_def lot_row_def bind_err_def writerow_lot field_def
      split: sum.splits)

lemma for_each_ok:
  assumes "\<And>x rows. x \<in> set xs \<Longrightarrow> body x rows = (rows @ out x, Inr ())"
  shows "for_each body xs rows = (rows @ concat (map out xs), Inr ())"
  using assms by (induction xs arbitrary: rows) simp_all

lemma write_cost_basis_ok:
  assumes "entry_ok cb" "has_keys a [''account_name'']"
  shows "write_cost_basis a cb rows = (rows @ map (lot_row a cb) (lots_of cb), Inr ())"
proof -
  from assms(1) obtain lots where l: "getitem cb ''lots'' = Inr (PList lots)"
    "has_keys cb [''ticker'']" "list_all lot_ok lots"
    by (auto simp: entry_ok_def split: sum.splits py_obj.splits)
  have "for_each (write_lot a cb) lots rows
        = (rows @ concat (map (\<lambda>lot. [lot_row a cb lot]) lots), Inr ())"
    using l assms(2) by (intro for_each_ok write_lot_ok) (auto simp: list_all_iff)
  moreover have "concat (map (\<lambda>lot. [lot_row a cb lot]) lots) = map (lot_row a cb) lots"
    by (induction lots) simp_all
  ultimately show ?thesis using l by (simp add: write_cost_basis_def bind_err_def lots_of_def)
qed

lemma write_account_ok:
  assumes "account_ok a"
  shows "write_account a rows
         = (rows @ concat (map (\<lambda>cb. map (lot_row a cb) (lots_of cb)) (entries_of a)), Inr ())"
proof -
  from assms obtain cbs where c: "getitem a ''cost_basis'' = Inr (PDict cbs)"
    "has_keys a [''account_name'']" "list_all entry_ok (map snd cbs)"
    by (auto simp: account_ok_def split: sum.splits py_obj.splits)
  have "for_each (write_cost_basis a) (map snd cbs) rows
        = (rows @ concat (map (\<lambda>cb. map (lot_row a cb) (lots_of cb)) (map snd cbs)), Inr ())"
    using c by (intro for_each_ok write_cost_basis_ok) (auto simp: list_all_iff)
  then show ?thesis using c by (simp add: write_account_def bind_err_def entries_of_def)
qed

lemma write_data_ok:
  assumes "keyed_document_ok data"
  shows "write_data data rows = (rows @ document_rows data, Inr ())"
proof -
  from assms obtain accounts where c: "getitem data ''accounts'' = Inr (PDict accounts)"
    "list_all account_ok (map snd accounts)"
    by (auto simp: keyed_document_ok_def split: sum.splits py_obj.splits)
  have "for_each write_account (map snd accounts) rows
        = (rows @ concat (map (\<lambda>a. concat (map (\<lambda>cb. map (lot_row a cb) (lots_of cb)) (entries_of a)))
                              (map snd accounts)), Inr ())"
    using c by (intro for_each_ok write_account_ok) (auto simp: list_all_iff)
  then show ?thesis
    using c by (simp add: write_data_def bind_err_def accounts_of_def document_rows_def)
qed

text \<open>
  What \<open>format_csv\<close> does on the documents it is written for: when every selected file
  decodes to a document whose accounts and cost-basis entries are dictionaries and whose
  lots carry all five fields, the file holds the header row and then one row per lot.
\<close>

lemma format_csv_keyed_documents:
  assumes "\<And>entry. entry \<in> set (exported_filenames dir) \<Longrightarrow>
             \<exists>data. snd entry = Inr data \<and> keyed_document_ok data"
  shows "format_csv dir =
           (map PStr HEADERS #
              concat (map (\<lambda>entry. document_rows (projr (snd entry))) (exported_filenames dir)),
            Inr ())"
proof -
  have "for_each process_file (exported_filenames dir) [map PStr HEADERS]
        = ([map PStr HEADERS] @
             concat (map (\<lambda>entry. document_rows (projr (snd entry))) (exported_filenames dir)),
           Inr ())"
  proof (rule for_each_ok)
    fix entry rows assume "entry \<in> set (exported_filenames dir)"
    then obtain data where "snd entry = Inr data" "keyed_document_ok data"
      using assms by blast
    then show "process_file entry rows = (rows @ document_rows (projr (snd entry)), Inr ())"
      by (simp add: process_file_def write_data_ok)
  qed
  then show ?thesis by (simp add: format_csv_def writeheader_rows)
qed

lemma format_csv_keyed_example:
  "format_csv
     [(''notes.txt'', Inl FileNotFoundError),
      (''brokerage-vanguard.json'', Inr (PDict [
         (''accounts'', PDict [(''1'', PDict [
            (''account_name'', PStr ''Freedom''),
            (''cost_basis'', PDict [(''CRLBF'', PDict [
               (''ticker'', PStr ''CRLBF''),
               (''lots'', PList [PDict [
                  (''date_acquired'', PStr ''12/27/2018''), (''num_shares'', PStr ''16.0000''),
                  (''cost_per_share'', PStr ''39.21''), (''total_cost'', PStr ''627.32''),
                  (''term'', PStr ''long'')]])])])])])]))]
   = ([map PStr HEADERS,
       [PStr ''Freedom'', PStr ''CRLBF'', PStr ''12/27/2018'', PStr ''16.0000'', PStr ''39.21'',
        PStr ''627.32'', PStr ''long'']],
      Inr ())"
  by (simp add: format_csv_def exported_filenames_def PREFIX_def suffix_to_prefix writeheader_rows
      process_file_def write_data_def write_account_def write_cost_basis_def write_lot_def
      bind_err_def writerow_lot)

text \<open>
  A lot without the \<open>term\<close> field, as the lots of the writer's test are, is not exported
  either, also when the accounts and cost-basis entries are dictionaries.
\<close>

lemma format_csv_lot_without_term:
  "format_csv
     [(''brokerage-vanguard.json'', Inr (PDict [
         (''accounts'', PDict [(''1'', PDict [
            (''account_name'', PStr ''Freedom''),
            (''cost_basis'', PDict [(''CRLBF'', PDict [
               (''ticker'', PStr ''CRLBF''),
               (''lots'', PList [PDict [
                  (''date_acquired'', PStr ''12/27/2018''), (''num_shares'', PStr ''16.0000''),
                  (''cost_per_share'', PStr ''39.21''), (''total_cost'', PStr ''627.32'')]])])])])])]))]
   = ([map PStr HEADERS], Inl (KeyError ''term''))"
  by (simp add: format_csv_def exported_filenames_def PREFIX_def suffix_to_prefix writeheader_rows
      process_file_def write_data_def write_account_def write_cost_basis_def write_lot_def
      bind_err_def)

text \<open>
  On the very document of the writer's test, stored as \<^verbatim>\<open>brokerage-vanguard.json\<close>,
  \<open>format_csv\<close> raises \<^verbatim>\<open>AttributeError\<close> and leaves the header row only.
\<close>

lemma format_csv_test_document_raises:
  "format_csv [(''brokerage-vanguard.json'', Inr writer_test_document)]
   = ([map PStr HEADERS], Inl AttributeError)"
  by (simp add: format_csv_def exported_filenames_def PREFIX_def suffix_to_prefix writeheader_rows
      process_file_def write_data_def writer_test_document_def bind_err_def)

text \<open>
  Claim C1. The export is to hold one row per lot for every exported document of the
  shape \<^verbatim>\<open>BrokerageWriter\<close> produces. The writer's test fixes that shape: the accounts
  and the cost-basis entries are lists. On such a document whose lot carries all five
  fields, stored as \<^verbatim>\<open>brokerage-vanguard.json\<close>, \<open>format_csv\<close> raises
  \<^verbatim>\<open>AttributeError\<close> at \<^verbatim>\<open>data['accounts'].values()\<close> and leaves a file with the
  header row only: the lot of the document is not exported.
\<close>

theorem format_csv_writer_document_raises:
  "format_csv [(''brokerage-vanguard.json'', Inr writer_document_with_term)]
   = ([map PStr HEADERS], Inl AttributeError)"
  by (simp add: format_csv_def exported_filenames_def PREFIX_def suffix_to_prefix writeheader_rows
      process_file_def write_data_def writer_document_with_term_def bind_err_def)

subsection \<open>Calendar dates\<close>

lemma div_step:
  fixes y k :: int
  assumes "0 < k"
  shows "y div k = (y - 1) div k + (if y mod k = 0 then 1 else 0)"
proof (cases "y mod k = 0")
  case True
  then have "k dvd y" by (simp add: dvd_eq_mod_eq_0)
  then have "k * (y div k) = y" by simp
  then have "y - 1 = k * (y div k - 1) + (k - 1)"
    by (simp add: right_diff_distrib)
  then have "(y - 1) div k = y div k - 1"
    using assms int_div_pos_eq [of "y - 1" k "y div k - 1" "k - 1"] by simp
  then show ?thesis using True by simp
next
  case False
  have "0 \<le> y mod k" using assms by simp
  with False have pos: "0 < y mod k" by simp
  have bound: "y mod k < k" using assms by simp
  have "y - 1 = k * (y div k) + (y mod k - 1)" by simp
  then have "(y - 1) div k = y div k"
    using pos bound int_div_pos_eq [of "y - 1" k "y div k" "y mod k - 1"] by simp
  then show ?thesis using False by simp
qed

lemma mod_100_4: "(y::int) mod 100 = 0 \<Longrightarrow> y mod 4 = 0"
  using mod_mod_cancel [of 4 100 y] by simp

lemma mod_400_100: "(y::int) mod 400 = 0 \<Longrightarrow> y mod 100 = 0"
  using mod_mod_cancel [of 100 400 y] by simp

lemma days_before_year_Suc:
  "days_before_year (y + 1) = days_before_year y + (if is_leap y then 366 else 365)"
proof -
  define c4 :: int where "c4 = (if y mod 4 = 0 then 1 else 0)"
  define c100 :: int where "c100 = (if y mod 100 = 0 then 1 else 0)"
  define c400 :: int where "c400 = (if y mod 400 = 0 then 1 else 0)"
  have e4: "y div 4 = (y - 1) div 4 + c4"
    unfolding c4_def by (rule div_step) simp
  have e100: "y div 100 = (y - 1) div 100 + c100"
    unfolding c100_def by (rule div_step) simp
  have e400: "y div 400 = (y - 1) div 400 + c400"
    unfolding c400_def by (rule div_step) simp
  have a: "days_before_year (y + 1) = y * 365 + y div 4 - y div 100 + y div 400"
    by (simp add: days_before_year_def)
  have b: "days_before_year y = (y - 1) * 365 + (y - 1) div 4 - (y - 1) div 100 + (y - 1) div 400"
    by (simp add: days_before_year_def Let_def)
  have c: "days_before_year (y + 1) = days_before_year y + 365 + c4 - c100 + c400"
    unfolding a b e4 e100 e400 by (simp add: left_diff_distrib)
  have d: "365 + c4 - c100 + c400 = (if is_leap y then 366 else 365)"
  proof (cases "y mod 4 = 0")
    case False
    then have "y mod 100 \<noteq> 0" "y mod 400 \<noteq> 0"
      using mod_100_4 [of y] mod_400_100 [of y] by auto
    with False show ?thesis by (simp add: c4_def c100_def c400_def is_leap_def)
  next
    case True
    show ?thesis
    proof (cases "y mod 100 = 0")
      case False
      then have "y mod 400 \<noteq> 0" using mod_400_100 [of y] by auto
      with True False show ?thesis by (simp add: c4_def c100_def c400_def is_leap_def)
    next
      case h: True
      with True show ?thesis by (simp add: c4_def c100_def c400_def is_leap_def)
    qed
  qed
  from c d show ?thesis by simp
qed

lemma month_cases:
  assumes "1 \<le> (m::int)" "m \<le> 12"
  shows "m = 1 \<or> m = 2 \<or> m = 3 \<or> m = 4 \<or> m = 5 \<or> m = 6 \<or> m = 7 \<or> m = 8 \<or> m = 9 \<or> m = 10
         \<or> m = 11 \<or> m = 12"
  using assms by arith

lemma days_before_month_Suc:
  assumes "1 \<le> m" "m < 12"
  shows "days_before_month y (m + 1) = days_before_month y m + days_in_month y m"
proof -
  from assms month_cases [of m]
  have "m = 1 \<or> m = 2 \<or> m = 3 \<or> m = 4 \<or> m = 5 \<or> m = 6 \<or> m = 7 \<or> m = 8 \<or> m = 9 \<or> m = 10
         \<or> m = 11" by simp
  then show ?thesis
    by (elim disjE) (simp_all add: days_before_month_def days_in_month_def)
qed

lemma days_in_month_pos: "1 \<le> days_in_month y m"
  by (simp add: days_in_month_def)

lemma plus_one_day_within_month:
  assumes "day d < days_in_month (year d) (month d)"
  shows "plus_one_day d = Inr (d\<lparr>day := day d + 1\<rparr>)"
proof -
  have "\<not> (month d = 12 \<and> day d = 31)"
    using assms by (auto simp: days_in_month_def)
  then show ?thesis using assms by (simp add: plus_one_day_def)
qed

lemma plus_one_day_next_month:
  assumes "day d = days_in_month (year d) (month d)" "month d < 12"
  shows "plus_one_day d = Inr \<lparr>year = year d, month = month d + 1, day = 1\<rparr>"
  using assms by (simp add: plus_one_day_def)

lemma plus_one_day_next_year:
  assumes "day d = 31" "month d = 12" "year d \<noteq> MAXYEAR"
  shows "plus_one_day d = Inr \<lparr>year = year d + 1, month = 1, day = 1\<rparr>"
  using assms by (simp add: plus_one_day_def days_in_month_def)

lemma toordinal_plus_one_day:
  assumes "valid_date d" "plus_one_day d = Inr d'"
  shows "toordinal d' = toordinal d + 1 \<and> valid_date d'"
proof -
  from assms(1) have v: "1 \<le> year d" "year d \<le> MAXYEAR" "1 \<le> month d" "month d \<le> 12"
    "1 \<le> day d" "day d \<le> days_in_month (year d) (month d)"
    by (simp_all add: valid_date_def)
  show ?thesis
  proof (cases "day d < days_in_month (year d) (month d)")
    case True
    with assms(2) have d': "d' = d\<lparr>day := day d + 1\<rparr>"
      by (simp add: plus_one_day_within_month)
    have "toordinal d' = toordinal d + 1" by (simp add: d' toordinal_def)
    moreover have "valid_date d'" using v True by (simp add: d' valid_date_def)
    ultimately show ?thesis by simp
  next
    case False
    with v have dd: "day d = days_in_month (year d) (month d)" by simp
    show ?thesis
    proof (cases "month d < 12")
      case True
      with dd assms(2) have d': "d' = \<lparr>year = year d, month = month d + 1, day = 1\<rparr>"
        by (simp add: plus_one_day_next_month)
      have "toordinal d' = toordinal d + 1"
        using v True dd by (simp add: d' toordinal_def days_before_month_Suc)
      moreover have "valid_date d'"
        using v True by (simp add: d' valid_date_def days_in_month_pos)
      ultimately show ?thesis by simp
    next
      case False
      with v have m12: "month d = 12" by simp
      with dd have d31: "day d = 31" by (simp add: days_in_month_def)
      from assms(2) m12 d31 have ny: "year d \<noteq> MAXYEAR"
        by (auto simp: plus_one_day_def)
      with assms(2) m12 d31 have d': "d' = \<lparr>year = year d + 1, month = 1, day = 1\<rparr>"
        by (simp add: plus_one_day_next_year)
      have "toordinal d' = toordinal d + 1"
        by (simp add: d' toordinal_def days_before_month_def m12 d31 days_before_year_Suc)
      moreover have "valid_date d'"
        using v ny by (simp add: d' valid_date_def days_in_month_def)
      ultimately show ?thesis by simp
    qed
  qed
qed


lemma not_leap_after_leap: "is_leap y \<Longrightarrow> \<not> is_leap (y + 1)"
proof -
  have "y mod 4 = 0 \<Longrightarrow> (y + 1) mod 4 \<noteq> 0" by presburger
  then show "is_leap y \<Longrightarrow> \<not> is_leap (y + 1)" by (simp add: is_leap_def)
qed

lemma plus_one_year_valid:
  assumes "valid_date d" "year d < MAXYEAR"
  shows "\<exists>e. plus_one_year d = Inr e \<and> year e = year d + 1 \<and> month e = month d
             \<and> day e = (if month d = 2 \<and> day d = 29 then 28 else day d) \<and> valid_date e"
proof -
  from assms(1) have v: "1 \<le> year d" "year d \<le> MAXYEAR" "1 \<le> month d" "month d \<le> 12"
    "1 \<le> day d" "day d \<le> days_in_month (year d) (month d)"
    by (simp_all add: valid_date_def)
  let ?e = "\<lparr>year = year d + 1, month = month d, day = min (days_in_month (year d + 1) (month d)) (day d)\<rparr>"
  have e: "plus_one_year d = Inr ?e"
    using assms(2) by (simp add: plus_one_year_def Let_def)
  have dm: "min (days_in_month (year d + 1) (month d)) (day d)
            = (if month d = 2 \<and> day d = 29 then 28 else day d)"
  proof (cases "month d = 2")
    case False
    then show ?thesis using v(6) by (simp add: days_in_month_def)
  next
    case True
    show ?thesis
    proof (cases "day d = 29")
      case d29: True
      with True v(6) have "is_leap (year d)" by (simp add: days_in_month_def split: if_splits)
      then have "\<not> is_leap (year d + 1)" by (rule not_leap_after_leap)
      with True d29 show ?thesis by (simp add: days_in_month_def)
    next
      case False
      with True v(6) have "day d \<le> 28" by (simp add: days_in_month_def split: if_splits)
      with True False show ?thesis by (simp add: days_in_month_def)
    qed
  qed
  have "valid_date ?e"
    using v assms(2) days_in_month_pos [of "year d + 1" "month d"]
    by (simp add: valid_date_def)
  with e dm show ?thesis by simp
qed

lemma plus_one_year_days:
  assumes "valid_date d" "plus_one_year d = Inr e"
  shows "toordinal e = toordinal d + 365 \<or> toordinal e = toordinal d + 366"
proof -
  from assms(1) have v: "1 \<le> month d" "month d \<le> 12" "1 \<le> day d"
    "day d \<le> days_in_month (year d) (month d)"
    by (simp_all add: valid_date_def)
  from assms(2) have e: "year e = year d + 1" "month e = month d"
    "day e = min (days_in_month (year d + 1) (month d)) (day d)"
    by (auto simp: plus_one_year_def Let_def split: if_splits)
  have t: "toordinal e = days_before_year (year d) + (if is_leap (year d) then 366 else 365)
             + days_before_month (year d + 1) (month d) + day e"
    by (simp add: toordinal_def e days_before_year_Suc)
  have td: "toordinal d = days_before_year (year d) + days_before_month (year d) (month d) + day d"
    by (simp add: toordinal_def)
  show ?thesis
  proof (cases "month d \<le> 2")
    case True
    then have m: "days_before_month (year d + 1) (month d) = days_before_month (year d) (month d)"
      by (simp add: days_before_month_def)
    show ?thesis
    proof (cases "month d = 2 \<and> day d = 29")
      case f: True
      with v(4) have l: "is_leap (year d)" by (simp add: days_in_month_def split: if_splits)
      then have "\<not> is_leap (year d + 1)" by (rule not_leap_after_leap)
      with f have "day e = 28" by (simp add: e days_in_month_def)
      with f l show ?thesis by (simp add: t td days_before_month_def)
    next
      case False
      with True v have "day e = day d"
        by (auto simp: e days_in_month_def split: if_splits)
      then show ?thesis by (simp add: t m td)
    qed
  next
    case False
    then have d: "day e = day d"
      using v(4) by (simp add: e days_in_month_def)
    from False have "days_before_month (year d + 1) (month d)
                     = days_before_month (year d) (month d)
                       + (if is_leap (year d + 1) then 1 else 0) - (if is_leap (year d) then 1 else 0)"
      by (simp add: days_before_month_def)
    then show ?thesis
      using not_leap_after_leap [of "year d"] by (simp add: t d td)
  qed
qed


lemma forecast_window_valid:
  assumes "valid_date today" "year today + 1 < MAXYEAR"
  shows "\<exists>start_date end_date.
           forecast_window today = Inr (start_date, end_date)
         \<and> valid_date start_date \<and> toordinal start_date = toordinal today + 1
         \<and> year end_date = year start_date + 1 \<and> month end_date = month start_date
         \<and> day end_date = (if month start_date = 2 \<and> day start_date = 29 then 28 else day start_date)
         \<and> valid_date end_date
         \<and> (toordinal end_date = toordinal start_date + 365
              \<or> toordinal end_date = toordinal start_date + 366)"
proof -
  have "year today \<noteq> MAXYEAR" using assms(2) by simp
  then have "\<exists>s. plus_one_day today = Inr s"
    by (simp add: plus_one_day_def)
  then obtain s where s: "plus_one_day today = Inr s" ..
  with assms(1) have vs: "toordinal s = toordinal today + 1" "valid_date s"
    using toordinal_plus_one_day by blast+
  have "year s \<le> year today + 1"
    using s by (auto simp: plus_one_day_def split: if_splits)
  with assms(2) have "year s < MAXYEAR" by simp
  with vs(2) obtain e where e: "plus_one_year s = Inr e" "year e = year s + 1" "month e = month s"
    "day e = (if month s = 2 \<and> day s = 29 then 28 else day s)" "valid_date e"
    using plus_one_year_valid by blast
  have "forecast_window today = Inr (s, e)"
    by (simp add: forecast_window_def s e(1) bind_err_def)
  moreover have "toordinal e = toordinal s + 365 \<or> toordinal e = toordinal s + 366"
    using vs(2) e(1) by (rule plus_one_year_days)
  ultimately show ?thesis using vs e by blast
qed


subsection \<open>The charts\<close>

lemma map_err_ok:
  assumes "\<And>x. x \<in> set xs \<Longrightarrow> f x = Inr (g x)"
  shows "map_err f xs = Inr (map g xs)"
  using assms by (induction xs) (simp_all add: bind_err_def)

lemma get_charts_returns_needs_chart_spec:
  assumes "get_charts api today spec = Inr charts"
  shows "\<exists>cs. getitem spec ''chart_spec'' = Inr cs"
  using assms
  by (auto simp: get_charts_def build_charts_def bind_err_def split: sum.splits)

lemma getitem_missing:
  assumes "key \<notin> fst ` set kvs"
  shows "getitem (PDict kvs) key = Inl (KeyError key)"
proof -
  have "map_of kvs key = None" using assms by (simp add: map_of_eq_None_iff)
  then show ?thesis by simp
qed


text \<open>
  Claim C3. The forecast window of \<open>get_charts\<close> starts on the day after the current
  date and ends one calendar year after its start (same month and day, the 28th of
  February for a start on the 29th; 365 or 366 days later), and the projector is built by \<open>from_spec\<close> from the
  spec and these two dates, formatted. The current date is any date up to the year 9997,
  so that both dates exist.
\<close>

theorem get_charts_window_tomorrow_one_year:
  assumes "valid_date today" "year today + 1 < MAXYEAR"
  shows "\<exists>start_date end_date.
           forecast_window today = Inr (start_date, end_date)
         \<and> valid_date start_date \<and> toordinal start_date = toordinal today + 1
         \<and> year end_date = year start_date + 1 \<and> month end_date = month start_date
         \<and> day end_date = (if month start_date = 2 \<and> day start_date = 29 then 28 else day start_date)
         \<and> valid_date end_date
         \<and> (toordinal end_date = toordinal start_date + 365
              \<or> toordinal end_date = toordinal start_date + 366)
         \<and> get_charts api today spec =
               bind_err (from_spec api spec (strftime api start_date) (strftime api end_date))
                 (\<lambda>projector. build_charts api projector spec)"
proof -
  from forecast_window_valid [OF assms] obtain s e where w:
    "forecast_window today = Inr (s, e)" "valid_date s" "toordinal s = toordinal today + 1"
    "year e = year s + 1" "month e = month s"
    "day e = (if month s = 2 \<and> day s = 29 then 28 else day s)" "valid_date e"
    "toordinal e = toordinal s + 365 \<or> toordinal e = toordinal s + 366"
    by blast
  have "get_charts api today spec =
          bind_err (from_spec api spec (strftime api s) (strftime api e))
            (\<lambda>projector. build_charts api projector spec)"
    by (simp add: get_charts_def w(1) bind_err_def)
  with w show ?thesis by blast
qed

theorem get_charts_window_tomorrow_one_year_witness:
  "valid_date \<lparr>year = 2024, month = 2, day = 28\<rparr>
   \<and> forecast_window \<lparr>year = 2024, month = 2, day = 28\<rparr>
       = Inr (\<lparr>year = 2024, month = 2, day = 29\<rparr>, \<lparr>year = 2025, month = 2, day = 28\<rparr>)
   \<and> (\<exists>start_date end_date.
           forecast_window \<lparr>year = 2024, month = 2, day = 28\<rparr> = Inr (start_date, end_date)
         \<and> toordinal start_date = toordinal \<lparr>year = 2024, month = 2, day = 28\<rparr> + 1
         \<and> year end_date = year start_date + 1 \<and> month end_date = month start_date
         \<and> get_charts stub_api \<lparr>year = 2024, month = 2, day = 28\<rparr> (PDict []) =
               bind_err (from_spec stub_api (PDict []) (strftime stub_api start_date)
                           (strftime stub_api end_date))
                 (\<lambda>projector. build_charts stub_api projector (PDict [])))"
proof -
  have v: "valid_date \<lparr>year = 2024, month = 2, day = 28\<rparr>"
    by (simp add: valid_date_def MAXYEAR_def days_in_month_def is_leap_def)
  have y: "year \<lparr>year = 2024, month = 2, day = 28\<rparr> + 1 < MAXYEAR"
    by (simp add: MAXYEAR_def)
  have w: "forecast_window \<lparr>year = 2024, month = 2, day = 28\<rparr>
           = Inr (\<lparr>year = 2024, month = 2, day = 29\<rparr>, \<lparr>year = 2025, month = 2, day = 28\<rparr>)"
    by (simp add: forecast_window_def plus_one_day_def plus_one_year_def bind_err_def MAXYEAR_def
        days_in_month_def is_leap_def)
  from get_charts_window_tomorrow_one_year [OF v y, of stub_api "PDict []"] v w
  show ?thesis by blast
qed

text \<open>
  Claim C4. For a spec whose \<open>chart_spec\<close> is a list of declarations, each with a \<open>name\<close>
  and a list \<open>account_ids\<close> of ids the projector knows, \<open>get_charts\<close> returns one chart
  per declaration, in order: its title is the declaration's name and its accounts are, in
  the listed order, the pairs of the name and the grouped running-balance series of the
  account that \<open>get_account\<close> returns for the id.
\<close>

theorem get_charts_one_chart_per_declaration:
  assumes "forecast_window today = Inr (start_date, end_date)"
    and "from_spec api spec (strftime api start_date) (strftime api end_date) = Inr projector"
    and "getitem spec ''chart_spec'' = Inr (PList decls)"
    and "\<forall>c \<in> set decls. getitem c ''name'' = Inr (nm c)
                          \<and> getitem c ''account_ids'' = Inr (PList (ids c))"
    and "\<forall>c \<in> set decls. \<forall>a \<in> set (ids c).
           get_account api projector a = Inr (acct a)
         \<and> get_running_balance_grouped api (acct a) = Inr (series a)"
  shows "get_charts api today spec =
           Inr (map (\<lambda>c. \<lparr>chart_title = nm c,
                            chart_accounts = map (\<lambda>a. (account_name api (acct a), series a)) (ids c)\<rparr>)
                    decls)"
proof -
  have chart: "make_chart api projector c =
                 Inr \<lparr>chart_title = nm c,
                      chart_accounts = map (\<lambda>a. (account_name api (acct a), series a)) (ids c)\<rparr>"
    if c: "c \<in> set decls" for c
  proof -
    have "map_err (chart_account api projector) (ids c)
          = Inr (map (\<lambda>a. (account_name api (acct a), series a)) (ids c))"
      using assms(5) c by (intro map_err_ok) (simp add: chart_account_def bind_err_def)
    then show ?thesis
      using assms(4) c by (simp add: make_chart_def bind_err_def)
  qed
  have "build_charts api projector spec =
          Inr (map (\<lambda>c. \<lparr>chart_title = nm c,
                           chart_accounts = map (\<lambda>a. (account_name api (acct a), series a)) (ids c)\<rparr>)
                   decls)"
    using assms(3) map_err_ok [of decls "make_chart api projector", OF chart]
    by (simp add: build_charts_def bind_err_def)
  then show ?thesis
    using assms(1,2) by (simp add: get_charts_def bind_err_def)
qed


theorem get_charts_one_chart_per_declaration_witness:
  "get_charts stub_api \<lparr>year = 2026, month = 11, day = 4\<rparr>
     (PDict [(''chart_spec'', PList [
        PDict [(''name'', PStr ''Cash''), (''account_ids'', PList [PStr ''checking'', PStr ''savings''])],
        PDict [(''name'', PStr ''Debt''), (''account_ids'', PList [PStr ''card''])]])])
   = Inr [\<lparr>chart_title = PStr ''Cash'',
            chart_accounts = [(PStr ''checking'', []), (PStr ''savings'', [])]\<rparr>,
          \<lparr>chart_title = PStr ''Debt'', chart_accounts = [(PStr ''card'', [])]\<rparr>]"
proof -
  let ?c1 = "PDict [(''name'', PStr ''Cash''), (''account_ids'', PList [PStr ''checking'', PStr ''savings''])]"
  let ?c2 = "PDict [(''name'', PStr ''Debt''), (''account_ids'', PList [PStr ''card''])]"
  let ?spec = "PDict [(''chart_spec'', PList [?c1, ?c2])]"
  let ?nm = "\<lambda>c. case getitem c ''name'' of Inr v \<Rightarrow> v | Inl e \<Rightarrow> PNone"
  let ?ids = "\<lambda>c. case getitem c ''account_ids'' of Inr (PList xs) \<Rightarrow> xs | _ \<Rightarrow> []"
  have w: "forecast_window \<lparr>year = 2026, month = 11, day = 4\<rparr>
           = Inr (\<lparr>year = 2026, month = 11, day = 5\<rparr>, \<lparr>year = 2027, month = 11, day = 5\<rparr>)"
    by (simp add: forecast_window_def plus_one_day_def plus_one_year_def bind_err_def MAXYEAR_def
        days_in_month_def)
  have p: "from_spec stub_api ?spec (strftime stub_api \<lparr>year = 2026, month = 11, day = 5\<rparr>)
             (strftime stub_api \<lparr>year = 2027, month = 11, day = 5\<rparr>) = Inr ()"
    by (simp add: stub_api_def)
  have cs: "getitem ?spec ''chart_spec'' = Inr (PList [?c1, ?c2])"
    by simp
  have d: "\<forall>c \<in> set [?c1, ?c2]. getitem c ''name'' = Inr (?nm c)
              \<and> getitem c ''account_ids'' = Inr (PList (?ids c))"
    by simp
  have a: "\<forall>c \<in> set [?c1, ?c2]. \<forall>a \<in> set (?ids c).
             get_account stub_api () a = Inr a
           \<and> get_running_balance_grouped stub_api a = Inr []"
    by (simp add: stub_api_def)
  from get_charts_one_chart_per_declaration [OF w p cs d a]
  show ?thesis by (simp add: stub_api_def)
qed

text \<open>
  Claim C7, as the code has it. A spec that holds only the account and transaction-rule
  lists is not enough for \<open>get_charts\<close>: after the projector is built it reads the
  top-level key \<open>chart_spec\<close>. Whenever \<open>get_charts\<close> returns charts the spec has that key,
  and on a dictionary without it, for which the window and the projector are built,
  \<open>get_charts\<close> raises \<open>KeyError\<close> for \<open>chart_spec\<close>.
\<close>

theorem get_charts_needs_chart_spec:
  "(get_charts api today spec = Inr charts \<longrightarrow> (\<exists>cs. getitem spec ''chart_spec'' = Inr cs))
   \<and> (forecast_window today = Inr (start_date, end_date)
        \<and> from_spec api (PDict kvs) (strftime api start_date) (strftime api end_date) = Inr projector
        \<and> ''chart_spec'' \<notin> fst ` set kvs
      \<longrightarrow> get_charts api today (PDict kvs) = Inl (KeyError ''chart_spec''))"
proof (intro conjI impI)
  assume "get_charts api today spec = Inr charts"
  then show "\<exists>cs. getitem spec ''chart_spec'' = Inr cs"
    by (rule get_charts_returns_needs_chart_spec)
next
  assume h: "forecast_window today = Inr (start_date, end_date)
        \<and> from_spec api (PDict kvs) (strftime api start_date) (strftime api end_date) = Inr projector
        \<and> ''chart_spec'' \<notin> fst ` set kvs"
  then have "''chart_spec'' \<notin> fst ` set kvs" by simp
  then have "getitem (PDict kvs) ''chart_spec'' = Inl (KeyError ''chart_spec'')"
    by (rule getitem_missing)
  with h show "get_charts api today (PDict kvs) = Inl (KeyError ''chart_spec'')"
    by (simp add: get_charts_def build_charts_def bind_err_def)
qed

theorem get_charts_needs_chart_spec_witness:
  "get_charts stub_api \<lparr>year = 2026, month = 11, day = 4\<rparr> (PDict [(''chart_spec'', PList [])]) = Inr []
   \<and> (\<exists>cs. getitem (PDict [(''chart_spec'', PList [])]) ''chart_spec'' = Inr cs)
   \<and> ''chart_spec'' \<notin> fst ` set [(''accounts'', PList []), (''transactions'', PList [])]
   \<and> get_charts stub_api \<lparr>year = 2026, month = 11, day = 4\<rparr>
         (PDict [(''accounts'', PList []), (''transactions'', PList [])]) = Inl (KeyError ''chart_spec'')"
proof -
  have w: "forecast_window \<lparr>year = 2026, month = 11, day = 4\<rparr>
           = Inr (\<lparr>year = 2026, month = 11, day = 5\<rparr>, \<lparr>year = 2027, month = 11, day = 5\<rparr>)"
    by (simp add: forecast_window_def plus_one_day_def plus_one_year_def bind_err_def MAXYEAR_def
        days_in_month_def)
  have g: "get_charts stub_api \<lparr>year = 2026, month = 11, day = 4\<rparr> (PDict [(''chart_spec'', PList [])])
           = Inr []"
    by (simp add: get_charts_def w build_charts_def bind_err_def stub_api_def)
  have p: "from_spec stub_api (PDict [(''accounts'', PList []), (''transactions'', PList [])])
             (strftime stub_api \<lparr>year = 2026, month = 11, day = 5\<rparr>)
             (strftime stub_api \<lparr>year = 2027, month = 11, day = 5\<rparr>) = Inr ()"
    by (simp add: stub_api_def)
  have k: "''chart_spec'' \<notin> fst ` set [(''accounts'', PList []), (''transactions'', PList [])]"
    by simp
  from get_charts_needs_chart_spec [of stub_api "\<lparr>year = 2026, month = 11, day = 4\<rparr>"
      "PDict [(''chart_spec'', PList [])]" "[]"
      "\<lparr>year = 2026, month = 11, day = 5\<rparr>" "\<lparr>year = 2027, month = 11, day = 5\<rparr>"
      "[(''accounts'', PList []), (''transactions'', PList [])]" "()"] w g p k
  show ?thesis by simp
qed

text \<open>
  The claim as the specification states it fails: with a projector that accepts the spec,
  a spec of the two lists alone makes \<open>get_charts\<close> raise.
\<close>

theorem get_charts_two_lists_only_raises:
  "get_charts stub_api \<lparr>year = 2026, month = 11, day = 4\<rparr>
     (PDict [(''accounts'', PList []), (''transactions'', PList [])])
   = Inl (KeyError ''chart_spec'')"
  by (simp add: get_charts_def forecast_window_def plus_one_day_def plus_one_year_def bind_err_def
      MAXYEAR_def days_in_month_def build_charts_def stub_api_def)

subsection \<open>The projection engine\<close>

lemma rule_events_cong:
  assumes "\<And>b. depends_on S (account_id a) b \<Longrightarrow> bal b = bal' b"
    and "r \<in> set (rule_decls S)"
  shows "rule_events R w bal a (i, r) = rule_events R w bal' a (i, r)"
proof (cases "rule_sign (account_id a) r")
  case None
  then show ?thesis by (simp add: rule_events_def)
next
  case (Some sg)
  have "rule_amount_at bal r d = rule_amount_at bal' r d" for d
  proof (cases "rule_amount r")
    case (Fixed v)
    then show ?thesis by (simp add: rule_amount_at_def)
  next
    case (PercentOf b p)
    with Some assms(2) have "depends_on S (account_id a) b"
      by (auto simp: depends_on_def list_ex_iff)
    then have "bal b = bal' b" by (rule assms(1))
    with PercentOf show ?thesis by (simp add: rule_amount_at_def)
  qed
  then show ?thesis by (simp add: rule_events_def Some)
qed

lemma account_events_cong:
  assumes "\<And>b. depends_on S (account_id a) b \<Longrightarrow> bal b = bal' b"
  shows "account_events R S w bal a = account_events R S w bal' a"
proof -
  have "rule_events R w bal a ir = rule_events R w bal' a ir"
    if "ir \<in> set (enumerate 0 (rule_decls S))" for ir
  proof -
    from that have "fst ir < length (rule_decls S)" "rule_decls S ! fst ir = snd ir"
      by (simp_all add: in_set_enumerate_eq)
    then have "snd ir \<in> set (rule_decls S)"
      by (metis nth_mem)
    from rule_events_cong [where R = R and w = w and i = "fst ir", OF assms this] show ?thesis by simp
  qed
  then show ?thesis
    unfolding account_events_def by (simp cong: map_cong)
qed

lemma strictly_increasing_filter:
  "strictly_increasing ds \<Longrightarrow> strictly_increasing (filter P ds)"
  unfolding strictly_increasing_def by (rule sorted_wrt_filter)

lemma strictly_increasing_distinct:
  "strictly_increasing ds \<Longrightarrow> distinct (map toordinal ds)"
  unfolding strictly_increasing_def
  by (induction ds) auto

lemma rule_events_keys:
  assumes "strictly_increasing (R (rule_date_spec r) (effective_window w r))"
  shows "distinct (map event_key (rule_events R w bal a (i, r)))"
    and "\<forall>e \<in> set (rule_events R w bal a (i, r)). event_index e = i"
proof -
  have "distinct (map toordinal (rule_dates R w a r))"
    unfolding rule_dates_def
    by (intro strictly_increasing_distinct strictly_increasing_filter assms)
  then have "distinct (map (\<lambda>d. (toordinal d, i)) (rule_dates R w a r))"
    by (simp add: distinct_map inj_on_def)
  then show "distinct (map event_key (rule_events R w bal a (i, r)))"
    by (simp add: rule_events_def event_key_def comp_def split: option.splits)
  show "\<forall>e \<in> set (rule_events R w bal a (i, r)). event_index e = i"
    by (auto simp: rule_events_def split: option.splits)
qed

lemma enumerate_events_keys:
  assumes "list_all (\<lambda>r. strictly_increasing (R (rule_date_spec r) (effective_window w r))) rs"
  shows "distinct (map event_key (concat (map (rule_events R w bal a) (enumerate n rs))))
         \<and> (\<forall>e \<in> set (concat (map (rule_events R w bal a) (enumerate n rs))). n \<le> event_index e)"
  using assms
proof (induction rs arbitrary: n)
  case Nil
  then show ?case by simp
next
  case (Cons r rs)
  then have r: "strictly_increasing (R (rule_date_spec r) (effective_window w r))"
    and rs: "list_all (\<lambda>r. strictly_increasing (R (rule_date_spec r) (effective_window w r))) rs"
    by simp_all
  define A where "A = rule_events R w bal a (n, r)"
  define B where "B = concat (map (rule_events R w bal a) (enumerate (Suc n) rs))"
  have h: "distinct (map event_key A)" "\<forall>e \<in> set A. event_index e = n"
    unfolding A_def
    using rule_events_keys [where R = R and r = r and w = w and bal = bal and a = a and i = n, OF r]
    by simp_all
  have ih: "distinct (map event_key B)" "\<forall>e \<in> set B. Suc n \<le> event_index e"
    unfolding B_def using Cons.IH [OF rs, of "Suc n"] by simp_all
  have "event_key e' \<noteq> event_key e" if "e \<in> set A" "e' \<in> set B" for e e'
  proof -
    from that(1) h(2) have "event_index e = n" by blast
    moreover from that(2) ih(2) have "Suc n \<le> event_index e'" by blast
    ultimately show ?thesis by (simp add: event_key_def)
  qed
  then have "set (map event_key A) \<inter> set (map event_key B) = {}"
    by auto
  with h(1) ih(1) have "distinct (map event_key (A @ B))"
    by simp
  moreover have "\<forall>e \<in> set (A @ B). n \<le> event_index e"
    using h(2) ih(2) by fastforce
  moreover have "concat (map (rule_events R w bal a) (enumerate n (r # rs))) = A @ B"
    by (simp add: A_def B_def)
  ultimately show ?case by simp
qed

lemma account_events_distinct_keys:
  assumes "resolver_contract R S w"
  shows "distinct (map event_key (account_events R S w bal a))"
  using enumerate_events_keys [of R w "rule_decls S" bal a 0] assms
  by (simp add: account_events_def resolver_contract_def)

lemma ordered_events_unique:
  assumes "ordered_events evs es1" "ordered_events evs es2" "distinct (map event_key evs)"
  shows "es1 = es2"
proof -
  from assms(1,2) have m: "mset es1 = mset evs" "mset es2 = mset evs"
    and s: "sorted (map event_key es1)" "sorted (map event_key es2)"
    by (simp_all add: ordered_events_def)
  from m have sets: "set es1 = set evs" "set es2 = set evs"
    by (metis set_mset_mset)+
  from m have "mset (map event_key es1) = mset (map event_key evs)"
    "mset (map event_key es2) = mset (map event_key evs)" by simp_all
  with assms(3) have d: "distinct (map event_key es1)" "distinct (map event_key es2)"
    by (metis mset_eq_imp_distinct_iff)+
  from assms(3) have "inj_on event_key (set evs)" by (simp add: distinct_map)
  with sets have "inj_on event_key (set es1 \<union> set es2)" by simp
  from map_sorted_distinct_set_unique [OF this s(1) d(1) s(2) d(2)] sets
  show ?thesis by simp
qed

lemma account_decl_unique:
  assumes "valid_spec S" "a \<in> set (account_decls S)" "a' \<in> set (account_decls S)"
    "account_id a = account_id a'"
  shows "a = a'"
  using assms by (auto simp: valid_spec_def distinct_map inj_on_def)

lemma ledger_of_deterministic:
  assumes "ledger_of R S w x L1" "ledger_of R S w x L2" "valid_spec S" "resolver_contract R S w"
  shows "L1 = L2"
  using assms(1,2)
proof (induction arbitrary: L2 rule: ledger_of.induct)
  case (evaluate a Ls es)
  from evaluate.prems show ?case
  proof (cases rule: ledger_of.cases)
    case (evaluate a' Ls' es')
    from account_decl_unique [OF assms(3) evaluate.hyps(1) evaluate(3) evaluate(1)]
    have aa: "a' = a" by simp
    have "Ls b = Ls' b" if "depends_on S (account_id a) b" for b
      using evaluate.IH [OF that] evaluate(4) [unfolded aa, OF that] by simp
    then have "account_events R S w (\<lambda>b. balance_as_of (Ls b)) a
               = account_events R S w (\<lambda>b. balance_as_of (Ls' b)) a"
      by (intro account_events_cong) simp
    with evaluate(5) aa
    have "ordered_events (account_events R S w (\<lambda>b. balance_as_of (Ls b)) a) es'"
      by simp
    with evaluate.hyps(3) have "es = es'"
      using account_events_distinct_keys [OF assms(4)] by (intro ordered_events_unique)
    with evaluate(2) aa show ?thesis by simp
  qed
qed


lemma ordered_events_sort: "ordered_events evs (sort_key event_key evs)"
  by (simp add: ordered_events_def)

lemma example_ordinals:
  "toordinal \<lparr>year = 2024, month = 1, day = 1\<rparr> = 738886"
  "toordinal \<lparr>year = 2024, month = 1, day = 3\<rparr> = 738888"
  "toordinal \<lparr>year = 2024, month = 2, day = 1\<rparr> = 738917"
  "toordinal \<lparr>year = 2024, month = 2, day = 3\<rparr> = 738919"
  "toordinal \<lparr>year = 2024, month = 3, day = 31\<rparr> = 738976"
  by (simp_all add: toordinal_def days_before_year_def days_before_month_def is_leap_def)

lemmas example_unfold =
  example_spec_def example_resolver_def example_window_def example_checking_def
  example_savings_def effective_window_def on_or_before_def example_ordinals

lemma example_contract: "resolver_contract example_resolver example_spec example_window"
  by (simp add: resolver_contract_def strictly_increasing_def example_unfold)

lemma example_valid: "valid_spec example_spec"
  by (simp add: valid_spec_def valid_rule_def declared_def example_unfold)

lemma example_checking_events:
  "account_events example_resolver example_spec example_window bal example_checking =
     [\<lparr>event_date = \<lparr>year = 2024, month = 1, day = 1\<rparr>, event_index = 0,
       event_delta = 2000, event_label = ''salary''\<rparr>,
      \<lparr>event_date = \<lparr>year = 2024, month = 2, day = 1\<rparr>, event_index = 0,
       event_delta = 2000, event_label = ''salary''\<rparr>,
      \<lparr>event_date = \<lparr>year = 2024, month = 1, day = 3\<rparr>, event_index = 1,
       event_delta = - 1200, event_label = ''rent''\<rparr>,
      \<lparr>event_date = \<lparr>year = 2024, month = 2, day = 3\<rparr>, event_index = 1,
       event_delta = - 1200, event_label = ''rent''\<rparr>,
      \<lparr>event_date = \<lparr>year = 2024, month = 1, day = 3\<rparr>, event_index = 2,
       event_delta = - 500, event_label = ''save''\<rparr>]"
  by (simp add: account_events_def enumerate_eq_zip upt_rec rule_events_def rule_sign_def rule_dates_def
      rule_amount_at_def example_unfold)

lemma example_checking_ledger_of:
  "ledger_of example_resolver example_spec example_window ''checking'' example_checking_ledger"
proof -
  let ?es = "[\<lparr>event_date = \<lparr>year = 2024, month = 1, day = 1\<rparr>, event_index = 0,
       event_delta = 2000, event_label = ''salary''\<rparr>,
      \<lparr>event_date = \<lparr>year = 2024, month = 1, day = 3\<rparr>, event_index = 1,
       event_delta = - 1200, event_label = ''rent''\<rparr>,
      \<lparr>event_date = \<lparr>year = 2024, month = 1, day = 3\<rparr>, event_index = 2,
       event_delta = - 500, event_label = ''save''\<rparr>,
      \<lparr>event_date = \<lparr>year = 2024, month = 2, day = 1\<rparr>, event_index = 0,
       event_delta = 2000, event_label = ''salary''\<rparr>,
      \<lparr>event_date = \<lparr>year = 2024, month = 2, day = 3\<rparr>, event_index = 1,
       event_delta = - 1200, event_label = ''rent''\<rparr>]"
  have a: "example_checking \<in> set (account_decls example_spec)"
    by (simp add: example_spec_def)
  have d: "\<not> depends_on example_spec (account_id example_checking) b" for b
    by (simp add: depends_on_def rule_sign_def example_unfold)
  have o: "ordered_events
             (account_events example_resolver example_spec example_window
                (\<lambda>b. balance_as_of ((\<lambda>b. []) b)) example_checking) ?es"
    unfolding example_checking_events
    by (simp add: ordered_events_def event_key_def example_ordinals)
  have "ledger_of example_resolver example_spec example_window (account_id example_checking)
          (accumulate example_checking ?es)"
    using a d o by (intro ledger_of.evaluate) simp_all
  moreover have "accumulate example_checking ?es = example_checking_ledger"
    by (simp add: accumulate_def example_checking_def example_checking_ledger_def)
  ultimately show ?thesis by (simp add: example_checking_def)
qed

lemma example_savings_ledger_of:
  "ledger_of example_resolver example_spec example_window ''savings'' example_savings_ledger"
proof -
  let ?es = "[\<lparr>event_date = \<lparr>year = 2024, month = 1, day = 3\<rparr>, event_index = 2,
       event_delta = 500, event_label = ''save''\<rparr>,
     \<lparr>event_date = \<lparr>year = 2024, month = 2, day = 3\<rparr>, event_index = 3,
       event_delta = 210, event_label = ''match''\<rparr>]"
  have a: "example_savings \<in> set (account_decls example_spec)"
    by (simp add: example_spec_def)
  have d: "b = ''checking''" if "depends_on example_spec (account_id example_savings) b" for b
    using that by (simp add: depends_on_def rule_sign_def example_unfold split: if_splits)
  have b: "balance_as_of example_checking_ledger \<lparr>year = 2024, month = 2, day = 3\<rparr> = 2100"
    by (simp add: balance_as_of_def example_checking_ledger_def on_or_before_def example_ordinals)
  have e: "account_events example_resolver example_spec example_window
             (\<lambda>b. balance_as_of ((\<lambda>b. example_checking_ledger) b)) example_savings = ?es"
    by (simp add: account_events_def enumerate_eq_zip upt_rec rule_events_def rule_sign_def
        rule_dates_def rule_amount_at_def example_unfold b)
  have o: "ordered_events
             (account_events example_resolver example_spec example_window
                (\<lambda>b. balance_as_of ((\<lambda>b. example_checking_ledger) b)) example_savings) ?es"
    unfolding e by (simp add: ordered_events_def event_key_def example_ordinals)
  have "ledger_of example_resolver example_spec example_window (account_id example_savings)
          (accumulate example_savings ?es)"
    using a o d example_checking_ledger_of by (intro ledger_of.evaluate) auto
  moreover have "accumulate example_savings ?es = example_savings_ledger"
    by (simp add: accumulate_def example_savings_def example_savings_ledger_def)
  ultimately show ?thesis by (simp add: example_savings_def)
qed

lemma example_projection:
  "projection example_resolver example_spec example_window example_projector"
  using example_valid example_checking_ledger_of example_savings_ledger_of
  by (simp add: projection_def example_projector_def example_spec_def example_checking_def
      example_savings_def)


text \<open>
  Claim C5. The projection is deterministic: for a resolver that yields strictly
  increasing dates for every rule of the specification, any two runs of the projection on
  the same specification and window give every declared account the same ledger, whatever
  sorting procedure and whatever evaluation order compatible with the dependencies a run
  uses.
\<close>

theorem projection_deterministic:
  assumes "resolver_contract R S w" "projection R S w P1" "projection R S w P2"
    and "a \<in> set (account_decls S)"
  shows "P1 (account_id a) = P2 (account_id a)"
proof -
  from assms(2,4) have "ledger_of R S w (account_id a) (P1 (account_id a))"
    by (simp add: projection_def)
  moreover from assms(3,4) have "ledger_of R S w (account_id a) (P2 (account_id a))"
    by (simp add: projection_def)
  moreover from assms(2) have "valid_spec S" by (simp add: projection_def)
  ultimately show ?thesis using assms(1) by (rule ledger_of_deterministic)
qed

theorem projection_deterministic_witness:
  "resolver_contract example_resolver example_spec example_window
   \<and> projection example_resolver example_spec example_window example_projector
   \<and> projection example_resolver example_spec example_window
        (\<lambda>x. if x = ''savings'' then example_savings_ledger
             else if x = ''checking'' then example_checking_ledger else [])
   \<and> example_savings \<in> set (account_decls example_spec)
   \<and> example_projector (account_id example_savings) = example_savings_ledger"
proof -
  have p2: "projection example_resolver example_spec example_window
        (\<lambda>x. if x = ''savings'' then example_savings_ledger
             else if x = ''checking'' then example_checking_ledger else [])"
    using example_valid example_checking_ledger_of example_savings_ledger_of
    by (simp add: projection_def example_spec_def example_checking_def example_savings_def)
  have a: "example_savings \<in> set (account_decls example_spec)"
    by (simp add: example_spec_def)
  from projection_deterministic [OF example_contract example_projection p2 a]
  have "example_projector (account_id example_savings) = example_savings_ledger"
    by (simp add: example_savings_def)
  with example_contract example_projection p2 a show ?thesis by simp
qed


subsection \<open>Grouping\<close>

text \<open>
  The grouping of the specification on its example scenario, by calendar month, and the
  method with the explicit period: given the period it returns that series, called without
  it, it raises.
\<close>

lemma scenario_grouped_monthly:
  "group_balances scenario_ledger Monthly
   = [(MonthLabel 2024 1, 1800), (MonthLabel 2024 2, 2600), (MonthLabel 2024 3, 3400)]"
  by (simp add: group_balances_def scenario_ledger_def bucket_def label_of_def closing_balance_def
      upto_rec1)

lemma grouped_by_period_given:
  "grouped_by_period scenario_ledger [Monthly]
   = Inr [(MonthLabel 2024 1, 1800), (MonthLabel 2024 2, 2600), (MonthLabel 2024 3, 3400)]"
  by (simp add: grouped_by_period_def scenario_grouped_monthly)

lemma grouped_by_period_missing: "call_without_arguments grouped_by_period L = Inl TypeError"
  by (simp add: call_without_arguments_def grouped_by_period_def)












end
